theory Spec2Isabelle
  imports Complex_Main
begin

section \<open>Data model\<close>

text \<open>
  The dashboards are three scripts over the Chart.js library:
  \<^item> the patient vitals page (\<^verbatim>\<open>patient-vitals-charts.html\<close>, first document),
  \<^item> the per-ward time series page (same file, second document),
  \<^item> the cross-ward snapshot (\<^verbatim>\<open>chart-scripts.js\<close>).

  JavaScript numbers are modelled as \<^typ>\<open>real\<close>: the arithmetic of the scripts
  (\<^verbatim>\<open>Math.min\<close>, \<^verbatim>\<open>Math.max\<close>, one subtraction, one product with 0.1, one
  sum) is read as exact arithmetic, not as IEEE 754 doubles.
\<close>

text \<open>An element of a series array: \<^verbatim>\<open>null\<close>, \<^verbatim>\<open>undefined\<close> or a number.\<close>

datatype reading = Null | Undefined | Num real

text \<open>
  A parsed JSON object, as the scripts read it: one field per key any of the three
  scripts accesses, \<open>None\<close> when the key is missing (the property read gives
  \<^verbatim>\<open>undefined\<close>) or holds \<^verbatim>\<open>null\<close>.
\<close>

record payload =
  labels :: "string list option"
  wards :: "string list option"
  heart_rate :: "reading list option"
  temperature :: "reading list option"
  oxygen_saturation :: "reading list option"
  humidity :: "reading list option"
  noise_level :: "reading list option"
  noise :: "reading list option"
  light_intensity :: "reading list option"

text \<open>
  What \<^verbatim>\<open>response.json()\<close> or \<^verbatim>\<open>JSON.parse\<close> yields when the text is valid JSON.
  A property read on \<^verbatim>\<open>null\<close> throws; on any other value that is not an object it
  gives \<^verbatim>\<open>undefined\<close>, as on an object without that key, so such a value is the
  object with no field.
\<close>

datatype json = JsonNull | JsonObject payload

text \<open>
  A Chart.js instance, reduced to what the scripts write: \<^verbatim>\<open>data.labels\<close>,
  \<^verbatim>\<open>data.datasets[0].data\<close>, \<^verbatim>\<open>options.scales.y.min\<close> and \<^verbatim>\<open>.max\<close>, and the
  number of \<^verbatim>\<open>update()\<close> calls made on it. A field is \<open>None\<close> when it holds
  \<^verbatim>\<open>undefined\<close>. What Chart.js draws is outside the model, and \<^verbatim>\<open>update()\<close> is
  taken to return.
\<close>

record chart =
  chart_labels :: "string list option"
  chart_data :: "reading list option"
  y_min :: "real option"
  y_max :: "real option"
  updates :: nat

text \<open>
  The exceptions that can leave a function of the scripts: a TypeError (a property read
  on \<^verbatim>\<open>null\<close> or \<^verbatim>\<open>undefined\<close>) and what the Chart constructor throws.
\<close>

datatype error = TypeError | ChartError

text \<open>A console line: its level and its first argument.\<close>

datatype console_entry = Log string | Err string

text \<open>
  The outcome of one \<^verbatim>\<open>fetch\<close>: the promise rejects, or it resolves to a response
  with a status and a body; \<open>body_json\<close> is \<open>None\<close> when the body is not valid JSON
  (then \<^verbatim>\<open>response.json()\<close> rejects).
\<close>

record response =
  status :: nat
  body_json :: "json option"

text \<open>\<^verbatim>\<open>response.ok\<close>: the status is in the range 200 to 299.\<close>

definition ok :: "response \<Rightarrow> bool" where
  "ok resp = (200 \<le> status resp \<and> status resp \<le> 299)"

datatype fetch_result = Rejected | Fulfilled response

text \<open>
  A running page: the script's chart variables, the console, and the number of fetches
  started and not yet settled.
\<close>

record 'v dashboard =
  vars :: 'v
  console :: "console_entry list"
  in_flight :: nat

section \<open>Chart mutation and dynamic range\<close>

text \<open>The two assignments \<^verbatim>\<open>c.data.labels = ls; c.data.datasets[0].data = vs\<close>.\<close>

definition set_series :: "string list option \<Rightarrow> reading list option \<Rightarrow> chart \<Rightarrow> chart" where
  "set_series ls vs c = c\<lparr>chart_labels := ls, chart_data := vs\<rparr>"

text \<open>
  \<^verbatim>\<open>c.update()\<close>, counted. What Chart.js itself writes into a chart on a redraw (it
  puts an empty array where the data is \<^verbatim>\<open>undefined\<close>) is library behaviour and is
  not modelled: the fields hold what the scripts assigned.
\<close>

definition chart_update :: "chart \<Rightarrow> chart" where
  "chart_update c = c\<lparr>updates := Suc (updates c)\<rparr>"

text \<open>\<^verbatim>\<open>values.filter(val => val !== null && val !== undefined)\<close>, the numbers unwrapped.\<close>

fun present :: "reading list \<Rightarrow> real list" where
  "present [] = []"
| "present (Null # vs) = present vs"
| "present (Undefined # vs) = present vs"
| "present (Num x # vs) = x # present vs"

text \<open>\<^verbatim>\<open>Math.min(...values)\<close> and \<^verbatim>\<open>Math.max(...values)\<close> on a non-empty array \<open>v # vs\<close>.\<close>

definition Math_min :: "real \<Rightarrow> real list \<Rightarrow> real" where
  "Math_min v vs = fold min vs v"

definition Math_max :: "real \<Rightarrow> real list \<Rightarrow> real" where
  "Math_max v vs = fold max vs v"

text \<open>Temperature (both templates): floor 0.5, no clamp.\<close>

definition scale_temperature :: "reading list \<Rightarrow> chart \<Rightarrow> chart" where
  "scale_temperature temperature_values c =
     (case present temperature_values of
        [] \<Rightarrow> c
      | v # vs \<Rightarrow>
          let minTemp = Math_min v vs;
              maxTemp = Math_max v vs;
              tempRange = maxTemp - minTemp;
              padding = max 0.5 (tempRange * 0.1)
          in c\<lparr>y_min := Some (minTemp - padding), y_max := Some (maxTemp + padding)\<rparr>)"

text \<open>Oxygen saturation (patient page): floor 1, clamped to 0 and 100.\<close>

definition scale_oxygen :: "reading list \<Rightarrow> chart \<Rightarrow> chart" where
  "scale_oxygen oxygen_values c =
     (case present oxygen_values of
        [] \<Rightarrow> c
      | v # vs \<Rightarrow>
          let minO2 = Math_min v vs;
              maxO2 = Math_max v vs;
              o2Range = maxO2 - minO2;
              padding = max 1 (o2Range * 0.1)
          in c\<lparr>y_min := Some (max 0 (minO2 - padding)),
                y_max := Some (min 100 (maxO2 + padding))\<rparr>)"

text \<open>Humidity (ward page): floor 2, clamped to 0 and 100.\<close>

definition scale_humidity :: "reading list \<Rightarrow> chart \<Rightarrow> chart" where
  "scale_humidity humidity_values c =
     (case present humidity_values of
        [] \<Rightarrow> c
      | v # vs \<Rightarrow>
          let minHumidity = Math_min v vs;
              maxHumidity = Math_max v vs;
              humidityRange = maxHumidity - minHumidity;
              padding = max 2 (humidityRange * 0.1)
          in c\<lparr>y_min := Some (max 0 (minHumidity - padding)),
                y_max := Some (min 100 (maxHumidity + padding))\<rparr>)"

text \<open>Noise (ward page): floor 2, lower bound clamped to 0.\<close>

definition scale_noise :: "reading list \<Rightarrow> chart \<Rightarrow> chart" where
  "scale_noise noise_values c =
     (case present noise_values of
        [] \<Rightarrow> c
      | v # vs \<Rightarrow>
          let minNoise = Math_min v vs;
              maxNoise = Math_max v vs;
              noiseRange = maxNoise - minNoise;
              padding = max 2 (noiseRange * 0.1)
          in c\<lparr>y_min := Some (max 0 (minNoise - padding)),
                y_max := Some (maxNoise + padding)\<rparr>)"

text \<open>Light intensity (ward page): floor 10, lower bound clamped to 0.\<close>

definition scale_light :: "reading list \<Rightarrow> chart \<Rightarrow> chart" where
  "scale_light light_values c =
     (case present light_values of
        [] \<Rightarrow> c
      | v # vs \<Rightarrow>
          let minLight = Math_min v vs;
              maxLight = Math_max v vs;
              lightRange = maxLight - minLight;
              padding = max 10 (lightRange * 0.1)
          in c\<lparr>y_min := Some (max 0 (minLight - padding)),
                y_max := Some (maxLight + padding)\<rparr>)"

section \<open>Patient vitals page\<close>

record patient =
  heartRateChart :: chart
  temperatureChart :: chart
  oxygenChart :: chart

text \<open>A chart as \<^verbatim>\<open>initializeCharts\<close> constructs it: empty labels and data, no bounds.\<close>

definition empty_chart :: chart where
  "empty_chart = \<lparr>chart_labels = Some [], chart_data = Some [], y_min = None, y_max = None,
     updates = 0\<rparr>"

text \<open>
  The callback of the second \<^verbatim>\<open>then\<close> of \<^verbatim>\<open>updateCharts\<close>. A property read on
  \<^verbatim>\<open>null\<close> and \<^verbatim>\<open>.filter\<close> on a missing series throw a TypeError; the
  assignments made before the throw stay.
\<close>

definition updateCharts_patient_then :: "json \<Rightarrow> patient \<Rightarrow> error option \<times> patient" where
  "updateCharts_patient_then data s =
     (case data of
        JsonNull \<Rightarrow> (Some TypeError, s)
      | JsonObject d \<Rightarrow>
          let s1 = s\<lparr>heartRateChart :=
                     chart_update (set_series (labels d) (heart_rate d) (heartRateChart s))\<rparr>;
              s2 = s1\<lparr>patient.temperatureChart :=
                     set_series (labels d) (temperature d) (patient.temperatureChart s1)\<rparr>
          in (case temperature d of
                None \<Rightarrow> (Some TypeError, s2)
              | Some temperature_values \<Rightarrow>
                  let s3 = s2\<lparr>patient.temperatureChart :=
                             chart_update (scale_temperature temperature_values
                               (patient.temperatureChart s2))\<rparr>;
                      s4 = s3\<lparr>oxygenChart :=
                             set_series (labels d) (oxygen_saturation d) (oxygenChart s3)\<rparr>
                  in (case oxygen_saturation d of
                        None \<Rightarrow> (Some TypeError, s4)
                      | Some oxygen_values \<Rightarrow>
                          (None, s4\<lparr>oxygenChart :=
                             chart_update (scale_oxygen oxygen_values (oxygenChart s4))\<rparr>))))"

definition console_log :: "string \<Rightarrow> 'v dashboard \<Rightarrow> 'v dashboard" where
  "console_log msg s = s\<lparr>console := console s @ [Log msg]\<rparr>"

definition console_error :: "string \<Rightarrow> 'v dashboard \<Rightarrow> 'v dashboard" where
  "console_error msg s = s\<lparr>console := console s @ [Err msg]\<rparr>"

text \<open>The timer callback \<^verbatim>\<open>updateCharts\<close> up to its return: it starts a fetch.\<close>

definition updateCharts_patient_start :: "patient dashboard \<Rightarrow> patient dashboard" where
  "updateCharts_patient_start s = s\<lparr>in_flight := Suc (in_flight s)\<rparr>"

text \<open>
  The promise chain \<^verbatim>\<open>fetch(url).then(r => r.json()).then(...).catch(...)\<close> once the
  fetch has settled. The response's status is not read.
\<close>

definition updateCharts_patient_settle ::
  "fetch_result \<Rightarrow> patient dashboard \<Rightarrow> patient dashboard" where
  "updateCharts_patient_settle r s =
     (let s0 = s\<lparr>in_flight := in_flight s - 1\<rparr> in
      case r of
        Rejected \<Rightarrow> console_error ''Error fetching chart data:'' s0
      | Fulfilled resp \<Rightarrow>
          (case body_json resp of
             None \<Rightarrow> console_error ''Error fetching chart data:'' s0
           | Some data \<Rightarrow>
               let s1 = console_log ''Chart data received:'' s0;
                   (e, v) = updateCharts_patient_then data (vars s1);
                   s2 = s1\<lparr>vars := v\<rparr>
               in (case e of
                     None \<Rightarrow> s2
                   | Some _ \<Rightarrow> console_error ''Error fetching chart data:'' s2)))"

text \<open>
  \<^verbatim>\<open>initializeCharts\<close>: \<^verbatim>\<open>document.getElementById(id).getContext("2d")\<close> throws a
  TypeError at the first canvas that is absent. The arguments say whether the canvases
  \<^verbatim>\<open>heartRateChart\<close>, \<^verbatim>\<open>temperatureChart\<close> and \<^verbatim>\<open>oxygenChart\<close> exist.
\<close>

definition initializeCharts_patient :: "bool \<Rightarrow> bool \<Rightarrow> bool \<Rightarrow> error + patient" where
  "initializeCharts_patient heartCanvas tempCanvas oxygenCanvas =
     (if \<not> heartCanvas then Inl TypeError
      else if \<not> tempCanvas then Inl TypeError
      else if \<not> oxygenCanvas then Inl TypeError
      else Inr \<lparr>heartRateChart = empty_chart, temperatureChart = empty_chart,
                 oxygenChart = empty_chart\<rparr>)"

text \<open>
  The \<^verbatim>\<open>DOMContentLoaded\<close> listener: \<^verbatim>\<open>initializeCharts(); updateCharts();
  setInterval(updateCharts, 3000)\<close>. When \<^verbatim>\<open>initializeCharts\<close> throws, the rest of the
  listener does not run.
\<close>

definition patient_page_load :: "bool \<Rightarrow> bool \<Rightarrow> bool \<Rightarrow> error + patient dashboard" where
  "patient_page_load heartCanvas tempCanvas oxygenCanvas =
     (case initializeCharts_patient heartCanvas tempCanvas oxygenCanvas of
        Inl e \<Rightarrow> Inl e
      | Inr v \<Rightarrow> Inr (updateCharts_patient_start \<lparr>vars = v, console = [], in_flight = 0\<rparr>))"

section \<open>Ward time series page\<close>

record ward =
  temperatureChart :: chart
  humidityChart :: chart
  noiseChart :: chart
  lightChart :: chart

definition updateCharts_ward_then :: "json \<Rightarrow> ward \<Rightarrow> error option \<times> ward" where
  "updateCharts_ward_then data s =
     (case data of
        JsonNull \<Rightarrow> (Some TypeError, s)
      | JsonObject d \<Rightarrow>
          let s1 = s\<lparr>ward.temperatureChart :=
                     set_series (labels d) (temperature d) (ward.temperatureChart s)\<rparr>
          in (case temperature d of
                None \<Rightarrow> (Some TypeError, s1)
              | Some temperature_values \<Rightarrow>
          let s2 = s1\<lparr>ward.temperatureChart :=
                     chart_update (scale_temperature temperature_values
                       (ward.temperatureChart s1))\<rparr>;
              s3 = s2\<lparr>humidityChart :=
                     set_series (labels d) (humidity d) (humidityChart s2)\<rparr>
          in (case humidity d of
                None \<Rightarrow> (Some TypeError, s3)
              | Some humidity_values \<Rightarrow>
          let s4 = s3\<lparr>humidityChart :=
                     chart_update (scale_humidity humidity_values (humidityChart s3))\<rparr>;
              s5 = s4\<lparr>noiseChart :=
                     set_series (labels d) (noise_level d) (noiseChart s4)\<rparr>
          in (case noise_level d of
                None \<Rightarrow> (Some TypeError, s5)
              | Some noise_values \<Rightarrow>
          let s6 = s5\<lparr>noiseChart :=
                     chart_update (scale_noise noise_values (noiseChart s5))\<rparr>;
              s7 = s6\<lparr>lightChart :=
                     set_series (labels d) (light_intensity d) (lightChart s6)\<rparr>
          in (case light_intensity d of
                None \<Rightarrow> (Some TypeError, s7)
              | Some light_values \<Rightarrow>
                  (None, s7\<lparr>lightChart :=
                     chart_update (scale_light light_values (lightChart s7))\<rparr>))))))"

definition updateCharts_ward_start :: "ward dashboard \<Rightarrow> ward dashboard" where
  "updateCharts_ward_start s = s\<lparr>in_flight := Suc (in_flight s)\<rparr>"

definition updateCharts_ward_settle ::
  "fetch_result \<Rightarrow> ward dashboard \<Rightarrow> ward dashboard" where
  "updateCharts_ward_settle r s =
     (let s0 = s\<lparr>in_flight := in_flight s - 1\<rparr> in
      case r of
        Rejected \<Rightarrow> console_error ''Error fetching chart data:'' s0
      | Fulfilled resp \<Rightarrow>
          (case body_json resp of
             None \<Rightarrow> console_error ''Error fetching chart data:'' s0
           | Some data \<Rightarrow>
               let s1 = console_log ''Ward chart data received:'' s0;
                   (e, v) = updateCharts_ward_then data (vars s1);
                   s2 = s1\<lparr>vars := v\<rparr>
               in (case e of
                     None \<Rightarrow> s2
                   | Some _ \<Rightarrow> console_error ''Error fetching chart data:'' s2)))"

text \<open>
  \<^verbatim>\<open>initializeCharts\<close> of the ward page; the arguments say whether the canvases
  \<^verbatim>\<open>temperatureChart\<close>, \<^verbatim>\<open>humidityChart\<close>, \<^verbatim>\<open>noiseChart\<close> and
  \<^verbatim>\<open>lightChart\<close> exist.
\<close>

definition initializeCharts_ward :: "bool \<Rightarrow> bool \<Rightarrow> bool \<Rightarrow> bool \<Rightarrow> error + ward" where
  "initializeCharts_ward tempCanvas humCanvas noiseCanvas lightCanvas =
     (if \<not> tempCanvas then Inl TypeError
      else if \<not> humCanvas then Inl TypeError
      else if \<not> noiseCanvas then Inl TypeError
      else if \<not> lightCanvas then Inl TypeError
      else Inr \<lparr>temperatureChart = empty_chart, humidityChart = empty_chart,
                 noiseChart = empty_chart, lightChart = empty_chart\<rparr>)"

definition ward_page_load ::
  "bool \<Rightarrow> bool \<Rightarrow> bool \<Rightarrow> bool \<Rightarrow> error + ward dashboard" where
  "ward_page_load tempCanvas humCanvas noiseCanvas lightCanvas =
     (case initializeCharts_ward tempCanvas humCanvas noiseCanvas lightCanvas of
        Inl e \<Rightarrow> Inl e
      | Inr v \<Rightarrow> Inr (updateCharts_ward_start \<lparr>vars = v, console = [], in_flight = 0\<rparr>))"

section \<open>Cross-ward snapshot\<close>

text \<open>
  A canvas element. The constructor \<^verbatim>\<open>new Chart(canvas, config)\<close> belongs to
  Chart.js and can throw (for one, on a canvas another chart holds); the scripts catch
  that for two of the four charts, so the model records on each canvas whether the
  constructor succeeds on it.
\<close>

datatype canvas = Usable | Unusable

text \<open>
  The page's elements as \<^verbatim>\<open>renderCharts\<close> looks them up: the text content of the
  \<^verbatim>\<open>chart-data\<close> script element and the four canvases, each \<open>None\<close> when
  \<^verbatim>\<open>getElementById\<close> returns \<^verbatim>\<open>null\<close>.
\<close>

record document =
  chartDataScript :: "string option"
  tempCtx :: "canvas option"
  humCtx :: "canvas option"
  noiseCtx :: "canvas option"
  lightCtx :: "canvas option"

text \<open>The module-level variables, \<^verbatim>\<open>null\<close> as \<open>None\<close>, and the page.\<close>

record globals =
  temperatureChartInstance :: "chart option"
  humidityChartInstance :: "chart option"
  noiseChartInstance :: "chart option"
  lightChartInstance :: "chart option"
  document :: document

text \<open>
  \<^verbatim>\<open>new Chart(ctx, config)\<close> with the labels, data and upper bound of the
  configuration. As for a redraw, the fields hold what the script passed, also where
  Chart.js would store an empty array for \<^verbatim>\<open>undefined\<close>.
\<close>

definition new_Chart ::
  "canvas \<Rightarrow> string list option \<Rightarrow> reading list option \<Rightarrow> real option \<Rightarrow> error + chart" where
  "new_Chart ctx ls vs ymax =
     (case ctx of
        Unusable \<Rightarrow> Inl ChartError
      | Usable \<Rightarrow>
          Inr \<lparr>chart_labels = ls, chart_data = vs, y_min = None, y_max = ymax, updates = 0\<rparr>)"

text \<open>\<^verbatim>\<open>series || []\<close>: an array is truthy, a missing or null field is not.\<close>

definition or_empty :: "reading list option \<Rightarrow> reading list option" where
  "or_empty series = (case series of None \<Rightarrow> Some [] | Some vs \<Rightarrow> Some vs)"

text \<open>
  The guard \<^verbatim>\<open>temperatureChartInstance && humidityChartInstance && noiseChartInstance
  && lightChartInstance\<close>, with the four charts when it holds.
\<close>

definition all_instances :: "globals \<Rightarrow> (chart \<times> chart \<times> chart \<times> chart) option" where
  "all_instances g =
     (case temperatureChartInstance g of None \<Rightarrow> None | Some t \<Rightarrow>
     (case humidityChartInstance g of None \<Rightarrow> None | Some h \<Rightarrow>
     (case noiseChartInstance g of None \<Rightarrow> None | Some n \<Rightarrow>
     (case lightChartInstance g of None \<Rightarrow> None | Some l \<Rightarrow> Some (t, h, n, l)))))"

text \<open>The negation of \<^verbatim>\<open>!tempCtx || !humCtx || !noiseCtx || !lightCtx\<close>.\<close>

definition all_canvases :: "document \<Rightarrow> (canvas \<times> canvas \<times> canvas \<times> canvas) option" where
  "all_canvases doc =
     (case tempCtx doc of None \<Rightarrow> None | Some tc \<Rightarrow>
     (case humCtx doc of None \<Rightarrow> None | Some hc \<Rightarrow>
     (case noiseCtx doc of None \<Rightarrow> None | Some nc \<Rightarrow>
     (case lightCtx doc of None \<Rightarrow> None | Some lc \<Rightarrow> Some (tc, hc, nc, lc)))))"

text \<open>
  The eight assignments and four \<^verbatim>\<open>update("none")\<close> calls that
  \<^verbatim>\<open>renderCharts\<close> (its update branch) and \<^verbatim>\<open>updateChartData\<close> both make.
\<close>

definition update_instances ::
  "payload \<Rightarrow> chart \<Rightarrow> chart \<Rightarrow> chart \<Rightarrow> chart \<Rightarrow> globals \<Rightarrow> globals" where
  "update_instances d t h n l g =
     g\<lparr>temperatureChartInstance := Some (chart_update (set_series (wards d) (temperature d) t)),
       humidityChartInstance := Some (chart_update (set_series (wards d) (humidity d) h)),
       noiseChartInstance := Some (chart_update (set_series (wards d) (or_empty (noise d)) n)),
       lightChartInstance :=
         Some (chart_update (set_series (wards d) (or_empty (light_intensity d)) l))\<rparr>"

text \<open>
  \<^verbatim>\<open>String.prototype.trim\<close> on ASCII white space. The Unicode white space it also
  strips (U+00A0, U+FEFF and others) is not modelled; the parser that reads the trimmed
  text is a parameter of \<^verbatim>\<open>renderCharts\<close>.
\<close>

definition is_space :: "char \<Rightarrow> bool" where
  "is_space c = (c \<in> set [CHR '' '', CHR 0x09, CHR 0x0A, CHR 0x0B, CHR 0x0C, CHR 0x0D])"

definition trim :: "string \<Rightarrow> string" where
  "trim s = rev (dropWhile is_space (rev (dropWhile is_space s)))"

text \<open>
  The creation branch of \<^verbatim>\<open>renderCharts\<close>. The temperature and humidity charts are
  constructed outside any \<^verbatim>\<open>try\<close>: a throw there leaves the function. The noise
  and light charts are constructed inside one each: a throw is logged and the variable
  stays \<^verbatim>\<open>null\<close>.
\<close>

definition create_charts ::
  "json \<Rightarrow> canvas \<Rightarrow> canvas \<Rightarrow> canvas \<Rightarrow> canvas \<Rightarrow> globals dashboard \<Rightarrow>
   error option \<times> globals dashboard" where
  "create_charts data tc hc nc lc s =
     (let s1 = console_log ''Creating charts with data:'' s in
      case data of
        JsonNull \<Rightarrow> (Some TypeError, s1)
      | JsonObject d \<Rightarrow>
          let s2 = console_log ''Light intensity data specifically:''
                     (console_log ''Noise data specifically:'' s1)
          in (case new_Chart tc (wards d) (temperature d) None of
                Inl e \<Rightarrow> (Some e, s2)
              | Inr t \<Rightarrow>
          let s3 = s2\<lparr>vars := (vars s2)\<lparr>temperatureChartInstance := Some t\<rparr>\<rparr>
          in (case new_Chart hc (wards d) (humidity d) (Some 100) of
                Inl e \<Rightarrow> (Some e, s3)
              | Inr h \<Rightarrow>
          let s4 = s3\<lparr>vars := (vars s3)\<lparr>humidityChartInstance := Some h\<rparr>\<rparr>;
              s5 = (case new_Chart nc (wards d) (or_empty (noise d)) None of
                      Inl e \<Rightarrow> console_error ''Error creating noise chart:'' s4
                    | Inr n \<Rightarrow>
                        console_log ''Noise chart created successfully''
                          (s4\<lparr>vars := (vars s4)\<lparr>noiseChartInstance := Some n\<rparr>\<rparr>));
              s6 = (case new_Chart lc (wards d) (or_empty (light_intensity d)) None of
                      Inl e \<Rightarrow> console_error ''Error creating light intensity chart:'' s5
                    | Inr l \<Rightarrow>
                        console_log ''Light intensity chart created successfully''
                          (s5\<lparr>vars := (vars s5)\<lparr>lightChartInstance := Some l\<rparr>\<rparr>))
          in (None, console_log ''Charts created successfully'' s6))))"

text \<open>
  \<^verbatim>\<open>renderCharts\<close>. \<open>JSON_parse\<close> is the platform's \<^verbatim>\<open>JSON.parse\<close>, \<open>None\<close>
  where it throws. The result holds the exception that leaves the function, if any.
\<close>

definition renderCharts ::
  "(string \<Rightarrow> json option) \<Rightarrow> globals dashboard \<Rightarrow> error option \<times> globals dashboard" where
  "renderCharts JSON_parse s =
     (let s1 = console_log ''renderCharts() called'' s;
          g = vars s1
      in case chartDataScript (document g) of
           None \<Rightarrow> (None, console_log ''Chart data script not found'' s1)
         | Some textContent \<Rightarrow>
             let jsonText = trim textContent;
                 s2 = console_log ''Raw chart data:'' s1
             in (case JSON_parse jsonText of
                   None \<Rightarrow>
                     (None, console_error ''Raw content:''
                              (console_error ''Error parsing chart data:'' s2))
                 | Some data \<Rightarrow>
                     let s3 = console_log ''Canvas elements found:''
                                (console_log ''Parsed chart data:'' s2)
                     in (case all_canvases (document g) of
                           None \<Rightarrow> (None, console_log ''Chart canvas elements not found'' s3)
                         | Some (tc, hc, nc, lc) \<Rightarrow>
                             (case all_instances g of
                                Some (t, h, n, l) \<Rightarrow>
                                  let s4 = console_log ''Updating existing charts'' s3
                                  in (case data of
                                        JsonNull \<Rightarrow> (Some TypeError, s4)
                                      | JsonObject d \<Rightarrow>
                                          (None, console_log ''Charts updated with new data''
                                             (s4\<lparr>vars := update_instances d t h n l g\<rparr>)))
                              | None \<Rightarrow> create_charts data tc hc nc lc s3))))"

text \<open>
  \<^verbatim>\<open>updateChartData\<close>. \<open>JSON_stringify\<close> is the platform's
  \<^verbatim>\<open>JSON.stringify\<close>.
\<close>

definition updateChartData ::
  "(json \<Rightarrow> string) \<Rightarrow> json \<Rightarrow> globals dashboard \<Rightarrow> error option \<times> globals dashboard" where
  "updateChartData JSON_stringify newData s =
     (let g = vars s
      in case all_instances g of
           None \<Rightarrow> (None, s)
         | Some (t, h, n, l) \<Rightarrow>
             let s1 = console_log ''Updating charts with new data:'' s
             in (case newData of
                   JsonNull \<Rightarrow> (Some TypeError, s1)
                 | JsonObject d \<Rightarrow>
                     let g1 = update_instances d t h n l g;
                         g2 = (case chartDataScript (document g1) of
                                 None \<Rightarrow> g1
                               | Some _ \<Rightarrow>
                                   g1\<lparr>document := (document g1)
                                     \<lparr>chartDataScript := Some (JSON_stringify newData)\<rparr>\<rparr>)
                     in (None, s1\<lparr>vars := g2\<rparr>)))"

text \<open>
  \<^verbatim>\<open>fetchAndUpdateCharts\<close>, in two parts: up to the first \<^verbatim>\<open>await\<close> (the log
  line and the start of the fetch), and from there on once the fetch has settled.
\<close>

definition fetchAndUpdateCharts_start :: "globals dashboard \<Rightarrow> globals dashboard" where
  "fetchAndUpdateCharts_start s =
     (let s1 = console_log ''Fetching chart data...'' s
      in s1\<lparr>in_flight := Suc (in_flight s1)\<rparr>)"

definition fetchAndUpdateCharts_settle ::
  "(json \<Rightarrow> string) \<Rightarrow> fetch_result \<Rightarrow> globals dashboard \<Rightarrow> globals dashboard" where
  "fetchAndUpdateCharts_settle JSON_stringify r s =
     (let s0 = s\<lparr>in_flight := in_flight s - 1\<rparr> in
      case r of
        Rejected \<Rightarrow> console_error ''Error fetching chart data:'' s0
      | Fulfilled resp \<Rightarrow>
          if \<not> ok resp then console_error ''Error fetching chart data:'' s0
          else (case body_json resp of
                  None \<Rightarrow> console_error ''Error fetching chart data:'' s0
                | Some newData \<Rightarrow>
                    let s1 = console_log ''Fetched chart data:'' s0;
                        (e, s2) = updateChartData JSON_stringify newData s1
                    in (case e of
                          None \<Rightarrow> s2
                        | Some _ \<Rightarrow> console_error ''Error fetching chart data:'' s2)))"

text \<open>The page as the script finds it: no chart instance yet.\<close>

definition initial_globals :: "document \<Rightarrow> globals dashboard" where
  "initial_globals doc =
     \<lparr>vars = \<lparr>temperatureChartInstance = None, humidityChartInstance = None,
               noiseChartInstance = None, lightChartInstance = None, document = doc\<rparr>,
      console = [], in_flight = 0\<rparr>"

section \<open>Refresh timers\<close>

text \<open>
  The browser's event loop as the scripts see it: the interval timer fires, or a fetch
  that was started settles. \<^verbatim>\<open>setInterval(f, period)\<close> calls \<open>f\<close> at every firing;
  a settlement with no fetch started does not occur and changes nothing.
\<close>

datatype event = Tick | Settle fetch_result

definition step_patient :: "event \<Rightarrow> patient dashboard \<Rightarrow> patient dashboard" where
  "step_patient ev s =
     (case ev of
        Tick \<Rightarrow> updateCharts_patient_start s
      | Settle r \<Rightarrow> if in_flight s = 0 then s else updateCharts_patient_settle r s)"

definition step_ward :: "event \<Rightarrow> ward dashboard \<Rightarrow> ward dashboard" where
  "step_ward ev s =
     (case ev of
        Tick \<Rightarrow> updateCharts_ward_start s
      | Settle r \<Rightarrow> if in_flight s = 0 then s else updateCharts_ward_settle r s)"

definition step_snapshot ::
  "(json \<Rightarrow> string) \<Rightarrow> event \<Rightarrow> globals dashboard \<Rightarrow> globals dashboard" where
  "step_snapshot JSON_stringify ev s =
     (case ev of
        Tick \<Rightarrow> fetchAndUpdateCharts_start s
      | Settle r \<Rightarrow>
          if in_flight s = 0 then s else fetchAndUpdateCharts_settle JSON_stringify r s)"

section \<open>Vocabulary of the specification\<close>

text \<open>The axis bounds of a chart, lower and upper.\<close>

definition bounds :: "chart \<Rightarrow> real option \<times> real option" where
  "bounds c = (y_min c, y_max c)"

text \<open>
  The specification's words for the dynamic range: the least and the greatest of the
  non-absent values of a series, and the padding \<open>max(floorPad, range * 0.1)\<close>.
\<close>

definition spec_min :: "reading list \<Rightarrow> real" where
  "spec_min vs = Min (set (present vs))"

definition spec_max :: "reading list \<Rightarrow> real" where
  "spec_max vs = Max (set (present vs))"

definition spec_pad :: "real \<Rightarrow> reading list \<Rightarrow> real" where
  "spec_pad floorPad vs = max floorPad ((spec_max vs - spec_min vs) * 0.1)"

text \<open>
  The same without the filter of the scripts: the set of the numbers that occur in a
  series, and the padding of a set of numbers.
\<close>

abbreviation non_absent :: "reading list \<Rightarrow> real set" where
  "non_absent vs \<equiv> {x. Num x \<in> set vs}"

abbreviation range_pad :: "real \<Rightarrow> real set \<Rightarrow> real" where
  "range_pad floorPad X \<equiv> max floorPad ((Max X - Min X) * 0.1)"

text \<open>What \<^verbatim>\<open>apply\<close> of the specification is on the two template pages: the chart
  variables after the \<^verbatim>\<open>then\<close> callback has run on a payload object.\<close>

abbreviation patient_apply :: "payload \<Rightarrow> patient \<Rightarrow> patient" where
  "patient_apply d p \<equiv> snd (updateCharts_patient_then (JsonObject d) p)"

abbreviation ward_apply :: "payload \<Rightarrow> ward \<Rightarrow> ward" where
  "ward_apply d w \<equiv> snd (updateCharts_ward_then (JsonObject d) w)"

text \<open>
  A label sequence and a value sequence are aligned when both are arrays of one length;
  a chart is aligned when its labels and its data are.
\<close>

definition series_aligned :: "string list option \<Rightarrow> reading list option \<Rightarrow> bool" where
  "series_aligned ls vs =
     (case ls of None \<Rightarrow> False
      | Some l \<Rightarrow> (case vs of None \<Rightarrow> False | Some v \<Rightarrow> length v = length l))"

definition aligned :: "chart \<Rightarrow> bool" where
  "aligned c = series_aligned (chart_labels c) (chart_data c)"

definition instance_aligned :: "chart option \<Rightarrow> bool" where
  "instance_aligned i = (case i of None \<Rightarrow> True | Some c \<Rightarrow> aligned c)"

definition instances_aligned :: "globals \<Rightarrow> bool" where
  "instances_aligned g =
     (instance_aligned (temperatureChartInstance g) \<and>
      instance_aligned (humidityChartInstance g) \<and>
      instance_aligned (noiseChartInstance g) \<and>
      instance_aligned (lightChartInstance g))"

text \<open>\<^verbatim>\<open>apply\<close> on the cross-ward snapshot: the page after \<^verbatim>\<open>updateChartData\<close>.\<close>

abbreviation snapshot_apply ::
  "(json \<Rightarrow> string) \<Rightarrow> payload \<Rightarrow> globals dashboard \<Rightarrow> globals dashboard" where
  "snapshot_apply JSON_stringify d s \<equiv> snd (updateChartData JSON_stringify (JsonObject d) s)"

text \<open>A chart whose labels and data were replaced wholesale and that was redrawn once.\<close>

definition replaced :: "string list option \<Rightarrow> reading list option \<Rightarrow> chart \<Rightarrow> chart" where
  "replaced ls vs c = c\<lparr>chart_labels := ls, chart_data := vs, updates := Suc (updates c)\<rparr>"

text \<open>
  A failed fetch in the specification's words: a network error, a non-success status,
  or a body that is not JSON.
\<close>

definition fetch_failed :: "fetch_result \<Rightarrow> bool" where
  "fetch_failed r =
     (case r of
        Rejected \<Rightarrow> True
      | Fulfilled resp \<Rightarrow> (if ok resp then body_json resp = None else True))"

section \<open>Example inputs\<close>

definition no_fields :: payload where
  "no_fields = \<lparr>labels = None, wards = None, heart_rate = None, temperature = None,
     oxygen_saturation = None, humidity = None, noise_level = None, noise = None,
     light_intensity = None\<rparr>"

definition fresh_patient :: patient where
  "fresh_patient = \<lparr>heartRateChart = empty_chart, temperatureChart = empty_chart,
     oxygenChart = empty_chart\<rparr>"

definition fresh_ward :: ward where
  "fresh_ward = \<lparr>temperatureChart = empty_chart, humidityChart = empty_chart,
     noiseChart = empty_chart, lightChart = empty_chart\<rparr>"

definition sample_payload :: payload where
  "sample_payload = no_fields\<lparr>labels := Some [''10:00'', ''10:05'', ''10:10''],
     heart_rate := Some [Num 70, Num 72, Null],
     temperature := Some [Num 20, Num 22, Num 24],
     oxygen_saturation := Some [Num 97, Num 99, Undefined],
     humidity := Some [Num 40, Null, Num 45],
     noise_level := Some [Num 1, Null, Num 2],
     light_intensity := Some [Num 300, Num 320, Num 310]\<rparr>"

text \<open>The sample payload with a light series that has no reading at all.\<close>

definition dark_ward_payload :: payload where
  "dark_ward_payload = sample_payload\<lparr>light_intensity := Some [Null, Null, Undefined]\<rparr>"

text \<open>A payload whose series have their least value after their greatest.\<close>

definition unsorted_payload :: payload where
  "unsorted_payload = no_fields\<lparr>labels := Some [''10:00'', ''10:05'', ''10:10''],
     heart_rate := Some [Num 70, Num 72, Null],
     temperature := Some [Num 12, Null, Num 10],
     oxygen_saturation := Some [Undefined, Num 99, Num 97],
     humidity := Some [Num 45, Null, Num 40],
     noise_level := Some [Null, Num 50, Num 30],
     light_intensity := Some [Num 320, Num 300, Undefined]\<rparr>"

definition humid_ward_payload :: payload where
  "humid_ward_payload = no_fields\<lparr>labels := Some [''10:00'', ''10:05''],
     temperature := Some [Num 21, Num 22], humidity := Some [Num 98, Num 100],
     noise_level := Some [Num 40, Num 45], light_intensity := Some [Num 300, Num 320]\<rparr>"

definition vitals_payload :: payload where
  "vitals_payload = no_fields\<lparr>labels := Some [''10:00'', ''10:05'', ''10:10''],
     heart_rate := Some [Num 70, Num 72, Null],
     temperature := Some [Num 10, Null, Num 12],
     oxygen_saturation := Some [Num 97, Num 99, Undefined]\<rparr>"

text \<open>
  The cross-ward page: the data the page was rendered with, a payload fetched later, and
  stand-ins for \<^verbatim>\<open>JSON.stringify\<close> and \<^verbatim>\<open>JSON.parse\<close> that know these two.
\<close>

definition page_json :: payload where
  "page_json = no_fields\<lparr>wards := Some [''A'', ''B''], temperature := Some [Num 21, Num 22],
     humidity := Some [Num 40, Num 45], noise := Some [Num 30, Num 35],
     light_intensity := Some [Num 300, Num 310]\<rparr>"

definition fetched_json :: payload where
  "fetched_json = no_fields\<lparr>wards := Some [''A'', ''B'', ''C''],
     temperature := Some [Num 21, Num 22, Num 23], humidity := Some [Num 40, Num 45, Num 50],
     noise := Some [Num 30, Num 35, Num 40], light_intensity := Some [Num 300, Num 310, Num 320]\<rparr>"

definition sample_stringify :: "json \<Rightarrow> string" where
  "sample_stringify j =
     (if j = JsonObject fetched_json then ''fetched''
      else if j = JsonObject page_json then ''page'' else ''other'')"

definition sample_parse :: "string \<Rightarrow> json option" where
  "sample_parse content =
     (if content = ''fetched'' then Some (JsonObject fetched_json)
      else if content = ''page'' then Some (JsonObject page_json) else None)"

definition sample_document :: document where
  "sample_document = \<lparr>chartDataScript = Some '' page '', tempCtx = Some Usable,
     humCtx = Some Usable, noiseCtx = Some Usable, lightCtx = Some Usable\<rparr>"

text \<open>The fetched payload without its noise and light intensity fields.\<close>

definition wards_only_json :: payload where
  "wards_only_json = fetched_json\<lparr>noise := None, light_intensity := None\<rparr>"

text \<open>The same page with a noise canvas Chart.js cannot use, and with no light canvas.\<close>

definition busy_noise_document :: document where
  "busy_noise_document = sample_document\<lparr>noiseCtx := Some Unusable\<rparr>"

definition no_light_document :: document where
  "no_light_document = sample_document\<lparr>lightCtx := None\<rparr>"

text \<open>The same page with a light canvas Chart.js cannot use.\<close>

definition busy_light_document :: document where
  "busy_light_document = sample_document\<lparr>lightCtx := Some Unusable\<rparr>"

text \<open>The page after the initial \<^verbatim>\<open>renderCharts\<close>, and a chart it constructs.\<close>

definition snapshot_loaded :: "document \<Rightarrow> globals dashboard" where
  "snapshot_loaded doc = snd (renderCharts sample_parse (initial_globals doc))"

definition page_chart :: "reading list \<Rightarrow> real option \<Rightarrow> chart" where
  "page_chart vs ymax = \<lparr>chart_labels = Some [''A'', ''B''], chart_data = Some vs, y_min = None,
     y_max = ymax, updates = 0\<rparr>"

text \<open>A response with an error status and a JSON body that has none of the series, and
  a patient page that shows data while one fetch is in flight.\<close>

definition error_response :: response where
  "error_response = \<lparr>status = 500, body_json = Some (JsonObject no_fields)\<rparr>"

definition showing_patient :: "patient dashboard" where
  "showing_patient =
     \<lparr>vars = patient_apply sample_payload fresh_patient, console = [], in_flight = 1\<rparr>"

section \<open>Dynamic range: what the scaling blocks compute\<close>

lemma set_present: "set (present vs) = {x. Num x \<in> set vs}"
  by (induction vs rule: present.induct) auto

lemma spec_min_present: "spec_min vs = Min (set (present vs))"
  by (simp add: spec_min_def)

lemma spec_max_present: "spec_max vs = Max (set (present vs))"
  by (simp add: spec_max_def)

text \<open>The least and the greatest are taken over the numbers of the series and nothing else.\<close>

lemma spec_min_max_numbers:
  "spec_min vs = Min {x. Num x \<in> set vs}" "spec_max vs = Max {x. Num x \<in> set vs}"
  by (simp_all add: spec_min_def spec_max_def set_present)

lemma Math_min_present: "present vs = x # xs \<Longrightarrow> Math_min x xs = spec_min vs"
  by (simp add: Math_min_def spec_min_def Min.set_eq_fold [symmetric])

lemma Math_max_present: "present vs = x # xs \<Longrightarrow> Math_max x xs = spec_max vs"
  by (simp add: Math_max_def spec_max_def Max.set_eq_fold [symmetric])

lemma present_empty_iff: "present vs = [] \<longleftrightarrow> set vs \<subseteq> {Null, Undefined}"
  by (induction vs rule: present.induct) auto

lemma present_map_Num: "present (map Num xs) = xs"
  by (induction xs) auto

lemma bounds_set_series [simp]: "bounds (set_series ls vs c) = bounds c"
  by (simp add: bounds_def set_series_def)

lemma bounds_chart_update [simp]: "bounds (chart_update c) = bounds c"
  by (simp add: bounds_def chart_update_def)

lemma bounds_scale_temperature:
  "present vs \<noteq> [] \<Longrightarrow> bounds (scale_temperature vs c) =
     (Some (spec_min vs - spec_pad 0.5 vs), Some (spec_max vs + spec_pad 0.5 vs))"
  by (cases "present vs")
    (simp_all add: scale_temperature_def bounds_def spec_pad_def Let_def
      Math_min_present Math_max_present)

lemma bounds_scale_oxygen:
  "present vs \<noteq> [] \<Longrightarrow> bounds (scale_oxygen vs c) =
     (Some (max 0 (spec_min vs - spec_pad 1 vs)), Some (min 100 (spec_max vs + spec_pad 1 vs)))"
  by (cases "present vs")
    (simp_all add: scale_oxygen_def bounds_def spec_pad_def Let_def
      Math_min_present Math_max_present)

lemma bounds_scale_humidity:
  "present vs \<noteq> [] \<Longrightarrow> bounds (scale_humidity vs c) =
     (Some (max 0 (spec_min vs - spec_pad 2 vs)), Some (min 100 (spec_max vs + spec_pad 2 vs)))"
  by (cases "present vs")
    (simp_all add: scale_humidity_def bounds_def spec_pad_def Let_def
      Math_min_present Math_max_present)

lemma bounds_scale_noise:
  "present vs \<noteq> [] \<Longrightarrow> bounds (scale_noise vs c) =
     (Some (max 0 (spec_min vs - spec_pad 2 vs)), Some (spec_max vs + spec_pad 2 vs))"
  by (cases "present vs")
    (simp_all add: scale_noise_def bounds_def spec_pad_def Let_def
      Math_min_present Math_max_present)

lemma bounds_scale_light:
  "present vs \<noteq> [] \<Longrightarrow> bounds (scale_light vs c) =
     (Some (max 0 (spec_min vs - spec_pad 10 vs)), Some (spec_max vs + spec_pad 10 vs))"
  by (cases "present vs")
    (simp_all add: scale_light_def bounds_def spec_pad_def Let_def
      Math_min_present Math_max_present)

lemma scale_temperature_cong:
  "present vs = present vs' \<Longrightarrow> bounds c = bounds c' \<Longrightarrow>
   bounds (scale_temperature vs c) = bounds (scale_temperature vs' c')"
  by (cases "present vs'") (simp_all add: scale_temperature_def bounds_def Let_def)

lemma scale_oxygen_cong:
  "present vs = present vs' \<Longrightarrow> bounds c = bounds c' \<Longrightarrow>
   bounds (scale_oxygen vs c) = bounds (scale_oxygen vs' c')"
  by (cases "present vs'") (simp_all add: scale_oxygen_def bounds_def Let_def)

lemma scale_humidity_cong:
  "present vs = present vs' \<Longrightarrow> bounds c = bounds c' \<Longrightarrow>
   bounds (scale_humidity vs c) = bounds (scale_humidity vs' c')"
  by (cases "present vs'") (simp_all add: scale_humidity_def bounds_def Let_def)

lemma scale_noise_cong:
  "present vs = present vs' \<Longrightarrow> bounds c = bounds c' \<Longrightarrow>
   bounds (scale_noise vs c) = bounds (scale_noise vs' c')"
  by (cases "present vs'") (simp_all add: scale_noise_def bounds_def Let_def)

lemma scale_light_cong:
  "present vs = present vs' \<Longrightarrow> bounds c = bounds c' \<Longrightarrow>
   bounds (scale_light vs c) = bounds (scale_light vs' c')"
  by (cases "present vs'") (simp_all add: scale_light_def bounds_def Let_def)

lemma scale_all_absent:
  "present vs = [] \<Longrightarrow> scale_temperature vs c = c"
  "present vs = [] \<Longrightarrow> scale_oxygen vs c = c"
  "present vs = [] \<Longrightarrow> scale_humidity vs c = c"
  "present vs = [] \<Longrightarrow> scale_noise vs c = c"
  "present vs = [] \<Longrightarrow> scale_light vs c = c"
  by (simp_all add: scale_temperature_def scale_oxygen_def scale_humidity_def
      scale_noise_def scale_light_def)

text \<open>Each chart after the callback, as long as the callback gets as far as that chart.\<close>

lemma patient_then_heart:
  "heartRateChart (snd (updateCharts_patient_then (JsonObject d) p)) =
     chart_update (set_series (labels d) (heart_rate d) (heartRateChart p))"
  by (simp add: updateCharts_patient_then_def Let_def split: option.splits)

lemma patient_then_temperature:
  "temperature d = Some tv \<Longrightarrow>
   patient.temperatureChart (snd (updateCharts_patient_then (JsonObject d) p)) =
     chart_update (scale_temperature tv
       (set_series (labels d) (Some tv) (patient.temperatureChart p)))"
  by (simp add: updateCharts_patient_then_def Let_def split: option.splits)

lemma patient_then_oxygen:
  "temperature d = Some tv \<Longrightarrow> oxygen_saturation d = Some ov \<Longrightarrow>
   oxygenChart (snd (updateCharts_patient_then (JsonObject d) p)) =
     chart_update (scale_oxygen ov (set_series (labels d) (Some ov) (oxygenChart p)))"
  by (simp add: updateCharts_patient_then_def Let_def)

lemma ward_then_temperature:
  "temperature d = Some tv \<Longrightarrow>
   ward.temperatureChart (snd (updateCharts_ward_then (JsonObject d) w)) =
     chart_update (scale_temperature tv
       (set_series (labels d) (Some tv) (ward.temperatureChart w)))"
  by (simp add: updateCharts_ward_then_def Let_def split: option.splits)

lemma ward_then_humidity:
  "temperature d = Some tv \<Longrightarrow> humidity d = Some hv \<Longrightarrow>
   humidityChart (snd (updateCharts_ward_then (JsonObject d) w)) =
     chart_update (scale_humidity hv (set_series (labels d) (Some hv) (humidityChart w)))"
  by (simp add: updateCharts_ward_then_def Let_def split: option.splits)

lemma ward_then_noise:
  "temperature d = Some tv \<Longrightarrow> humidity d = Some hv \<Longrightarrow> noise_level d = Some nv \<Longrightarrow>
   noiseChart (snd (updateCharts_ward_then (JsonObject d) w)) =
     chart_update (scale_noise nv (set_series (labels d) (Some nv) (noiseChart w)))"
  by (simp add: updateCharts_ward_then_def Let_def split: option.splits)

lemma ward_then_light:
  "temperature d = Some tv \<Longrightarrow> humidity d = Some hv \<Longrightarrow> noise_level d = Some nv \<Longrightarrow>
   light_intensity d = Some lv \<Longrightarrow>
   lightChart (snd (updateCharts_ward_then (JsonObject d) w)) =
     chart_update (scale_light lv (set_series (labels d) (Some lv) (lightChart w)))"
  by (simp add: updateCharts_ward_then_def Let_def)

lemma patient_temperature_filtered:
  assumes "temperature d = Some tv"
  shows "bounds (patient.temperatureChart (patient_apply d p)) =
     bounds (patient.temperatureChart
       (patient_apply (d\<lparr>temperature := Some (map Num (present tv))\<rparr>) p))"
proof -
  have "bounds (scale_temperature tv (set_series (labels d) (Some tv) c)) =
      bounds (scale_temperature (map Num (present tv))
        (set_series (labels d) (Some (map Num (present tv))) c))" for c
    by (rule scale_temperature_cong) (simp_all add: present_map_Num)
  with assms show ?thesis
    by (simp add: patient_then_temperature)
qed

lemma ward_temperature_filtered:
  assumes "temperature d = Some tv"
  shows "bounds (ward.temperatureChart (ward_apply d w)) =
     bounds (ward.temperatureChart
       (ward_apply (d\<lparr>temperature := Some (map Num (present tv))\<rparr>) w))"
proof -
  have "bounds (scale_temperature tv (set_series (labels d) (Some tv) c)) =
      bounds (scale_temperature (map Num (present tv))
        (set_series (labels d) (Some (map Num (present tv))) c))" for c
    by (rule scale_temperature_cong) (simp_all add: present_map_Num)
  with assms show ?thesis
    by (simp add: ward_then_temperature)
qed

lemma patient_oxygen_filtered:
  assumes "temperature d = Some tv" "oxygen_saturation d = Some ov"
  shows "bounds (oxygenChart (patient_apply d p)) =
     bounds (oxygenChart
       (patient_apply (d\<lparr>oxygen_saturation := Some (map Num (present ov))\<rparr>) p))"
proof -
  have "bounds (scale_oxygen ov (set_series (labels d) (Some ov) c)) =
      bounds (scale_oxygen (map Num (present ov))
        (set_series (labels d) (Some (map Num (present ov))) c))" for c
    by (rule scale_oxygen_cong) (simp_all add: present_map_Num)
  with assms show ?thesis
    by (simp add: patient_then_oxygen)
qed

lemma ward_humidity_filtered:
  assumes "temperature d = Some tv" "humidity d = Some hv"
  shows "bounds (humidityChart (ward_apply d w)) =
     bounds (humidityChart (ward_apply (d\<lparr>humidity := Some (map Num (present hv))\<rparr>) w))"
proof -
  have "bounds (scale_humidity hv (set_series (labels d) (Some hv) c)) =
      bounds (scale_humidity (map Num (present hv))
        (set_series (labels d) (Some (map Num (present hv))) c))" for c
    by (rule scale_humidity_cong) (simp_all add: present_map_Num)
  with assms show ?thesis
    by (simp add: ward_then_humidity)
qed

lemma ward_noise_filtered:
  assumes "temperature d = Some tv" "humidity d = Some hv" "noise_level d = Some nv"
  shows "bounds (noiseChart (ward_apply d w)) =
     bounds (noiseChart (ward_apply (d\<lparr>noise_level := Some (map Num (present nv))\<rparr>) w))"
proof -
  have "bounds (scale_noise nv (set_series (labels d) (Some nv) c)) =
      bounds (scale_noise (map Num (present nv))
        (set_series (labels d) (Some (map Num (present nv))) c))" for c
    by (rule scale_noise_cong) (simp_all add: present_map_Num)
  with assms show ?thesis
    by (simp add: ward_then_noise)
qed

lemma ward_light_filtered:
  assumes "temperature d = Some tv" "humidity d = Some hv" "noise_level d = Some nv"
    "light_intensity d = Some lv"
  shows "bounds (lightChart (ward_apply d w)) =
     bounds (lightChart (ward_apply (d\<lparr>light_intensity := Some (map Num (present lv))\<rparr>) w))"
proof -
  have "bounds (scale_light lv (set_series (labels d) (Some lv) c)) =
      bounds (scale_light (map Num (present lv))
        (set_series (labels d) (Some (map Num (present lv))) c))" for c
    by (rule scale_light_cong) (simp_all add: present_map_Num)
  with assms show ?thesis
    by (simp add: ward_then_light)
qed

lemma all_absent_bounds:
  "temperature d = Some tv \<Longrightarrow> set tv \<subseteq> {Null, Undefined} \<Longrightarrow>
     bounds (patient.temperatureChart (patient_apply d p)) = bounds (patient.temperatureChart p)"
  "temperature d = Some tv \<Longrightarrow> set tv \<subseteq> {Null, Undefined} \<Longrightarrow>
     bounds (ward.temperatureChart (ward_apply d w)) = bounds (ward.temperatureChart w)"
  "temperature d = Some tv \<Longrightarrow> oxygen_saturation d = Some ov \<Longrightarrow>
   set ov \<subseteq> {Null, Undefined} \<Longrightarrow>
     bounds (oxygenChart (patient_apply d p)) = bounds (oxygenChart p)"
  "temperature d = Some tv \<Longrightarrow> humidity d = Some hv \<Longrightarrow> set hv \<subseteq> {Null, Undefined} \<Longrightarrow>
     bounds (humidityChart (ward_apply d w)) = bounds (humidityChart w)"
  "temperature d = Some tv \<Longrightarrow> humidity d = Some hv \<Longrightarrow> noise_level d = Some nv \<Longrightarrow>
   set nv \<subseteq> {Null, Undefined} \<Longrightarrow>
     bounds (noiseChart (ward_apply d w)) = bounds (noiseChart w)"
  "temperature d = Some tv \<Longrightarrow> humidity d = Some hv \<Longrightarrow> noise_level d = Some nv \<Longrightarrow>
   light_intensity d = Some lv \<Longrightarrow> set lv \<subseteq> {Null, Undefined} \<Longrightarrow>
     bounds (lightChart (ward_apply d w)) = bounds (lightChart w)"
  by (simp_all add: patient_then_temperature ward_then_temperature patient_then_oxygen
      ward_then_humidity ward_then_noise ward_then_light present_empty_iff [symmetric]
      scale_all_absent)

section \<open>Claims on the dynamic range\<close>

text \<open>
  C1, as amended. For every dynamic-axis series with at least one non-absent value,
  apply sets the axis bounds from \<open>min\<close> and \<open>max\<close> of the non-absent values and
  \<open>pad = max(floorPad, (max - min) * 0.1)\<close>, with floorPad 0.5 for temperature, 1 for
  oxygen saturation, 2 for humidity and noise, 10 for light intensity. The lower bound is
  \<open>min - pad\<close> for temperature and \<open>max(0, min - pad)\<close> for the four other series; the
  upper bound is \<open>max + pad\<close> for temperature, noise and light intensity and
  \<open>min(100, max + pad)\<close> for oxygen saturation and humidity. Temperature values
  [20, 22, 24] yield the bounds [19.5, 24.5]. A chart is reached when the series the
  callback scales before it are arrays.
\<close>

theorem dynamic_range_bounds:
  "(temperature d = Some tv \<and> present tv \<noteq> [] \<longrightarrow>
      bounds (patient.temperatureChart (patient_apply d p)) =
        (Some (spec_min tv - spec_pad 0.5 tv), Some (spec_max tv + spec_pad 0.5 tv)) \<and>
      bounds (ward.temperatureChart (ward_apply d w)) =
        (Some (spec_min tv - spec_pad 0.5 tv), Some (spec_max tv + spec_pad 0.5 tv))) \<and>
   (temperature d = Some tv \<and> oxygen_saturation d = Some ov \<and> present ov \<noteq> [] \<longrightarrow>
      bounds (oxygenChart (patient_apply d p)) =
        (Some (max 0 (spec_min ov - spec_pad 1 ov)),
         Some (min 100 (spec_max ov + spec_pad 1 ov)))) \<and>
   (temperature d = Some tv \<and> humidity d = Some hv \<and> present hv \<noteq> [] \<longrightarrow>
      bounds (humidityChart (ward_apply d w)) =
        (Some (max 0 (spec_min hv - spec_pad 2 hv)),
         Some (min 100 (spec_max hv + spec_pad 2 hv)))) \<and>
   (temperature d = Some tv \<and> humidity d = Some hv \<and> noise_level d = Some nv \<and>
    present nv \<noteq> [] \<longrightarrow>
      bounds (noiseChart (ward_apply d w)) =
        (Some (max 0 (spec_min nv - spec_pad 2 nv)), Some (spec_max nv + spec_pad 2 nv))) \<and>
   (temperature d = Some tv \<and> humidity d = Some hv \<and> noise_level d = Some nv \<and>
    light_intensity d = Some lv \<and> present lv \<noteq> [] \<longrightarrow>
      bounds (lightChart (ward_apply d w)) =
        (Some (max 0 (spec_min lv - spec_pad 10 lv)), Some (spec_max lv + spec_pad 10 lv))) \<and>
   (temperature d = Some [Num 20, Num 22, Num 24] \<longrightarrow>
      bounds (patient.temperatureChart (patient_apply d p)) = (Some 19.5, Some 24.5) \<and>
      bounds (ward.temperatureChart (ward_apply d w)) = (Some 19.5, Some 24.5))"
proof (intro conjI impI)
  assume a: "temperature d = Some [Num 20, Num 22, Num 24]"
  have b: "bounds (scale_temperature [Num 20, Num 22, Num 24] c) = (Some 19.5, Some 24.5)" for c
    by (simp add: scale_temperature_def bounds_def Math_min_def Math_max_def Let_def)
  show "bounds (patient.temperatureChart (patient_apply d p)) = (Some 19.5, Some 24.5)"
    by (simp only: patient_then_temperature [OF a] bounds_chart_update b)
  show "bounds (ward.temperatureChart (ward_apply d w)) = (Some 19.5, Some 24.5)"
    by (simp only: ward_then_temperature [OF a] bounds_chart_update b)
qed (simp_all add: patient_then_temperature ward_then_temperature patient_then_oxygen
      ward_then_humidity ward_then_noise ward_then_light bounds_scale_temperature
      bounds_scale_oxygen bounds_scale_humidity bounds_scale_noise bounds_scale_light)

theorem dynamic_range_bounds_witness:
  "bounds (patient.temperatureChart (patient_apply sample_payload fresh_patient)) =
     (Some 19.5, Some 24.5) \<and>
   bounds (ward.temperatureChart (ward_apply sample_payload fresh_ward)) =
     (Some 19.5, Some 24.5) \<and>
   bounds (oxygenChart (patient_apply sample_payload fresh_patient)) = (Some 96, Some 100) \<and>
   bounds (humidityChart (ward_apply sample_payload fresh_ward)) = (Some 38, Some 47) \<and>
   bounds (noiseChart (ward_apply sample_payload fresh_ward)) = (Some 0, Some 4) \<and>
   bounds (lightChart (ward_apply sample_payload fresh_ward)) = (Some 290, Some 330)"
  using dynamic_range_bounds [of sample_payload "[Num 20, Num 22, Num 24]" fresh_patient
      fresh_ward "[Num 97, Num 99, Undefined]" "[Num 40, Null, Num 45]" "[Num 1, Null, Num 2]"
      "[Num 300, Num 320, Num 310]"]
  by (simp add: sample_payload_def no_fields_def spec_min_present spec_max_present
      spec_pad_def)

text \<open>
  C1 as it is written fails on the noise series of the ward page: with the non-absent
  noise values 1 and 2 the padding is 2 and \<open>min - pad\<close> is -1, and the lower bound the
  script sets is 0.
\<close>

theorem noise_lower_bound_counterexample:
  "noise_level sample_payload = Some [Num 1, Null, Num 2] \<and>
   present [Num 1, Null, Num 2] = [1, 2] \<and>
   spec_min [Num 1, Null, Num 2] - spec_pad 2 [Num 1, Null, Num 2] = - 1 \<and>
   y_min (noiseChart (ward_apply sample_payload fresh_ward)) = Some 0 \<and>
   y_min (noiseChart (ward_apply sample_payload fresh_ward)) \<noteq>
     Some (spec_min [Num 1, Null, Num 2] - spec_pad 2 [Num 1, Null, Num 2])"
  by (simp add: sample_payload_def no_fields_def spec_min_present spec_max_present
      spec_pad_def updateCharts_ward_then_def Let_def fresh_ward_def empty_chart_def
      set_series_def chart_update_def scale_temperature_def scale_humidity_def
      scale_noise_def Math_min_def Math_max_def)

text \<open>
  C2. For the percentage-bounded series (oxygen saturation on the patient page, humidity
  on the ward page) with at least one non-absent value, apply sets the lower bound to
  \<open>max(0, min - pad)\<close> and the upper bound to \<open>min(100, max + pad)\<close>, so the lower bound
  is at least 0 and the upper bound at most 100; humidity values [98, 100] give the upper
  bound 100.
\<close>

theorem percentage_clamp:
  "(temperature d = Some tv \<and> oxygen_saturation d = Some ov \<and> present ov \<noteq> [] \<longrightarrow>
      (\<exists>lo hi. bounds (oxygenChart (patient_apply d p)) = (Some lo, Some hi) \<and>
         lo = max 0 (spec_min ov - spec_pad 1 ov) \<and>
         hi = min 100 (spec_max ov + spec_pad 1 ov) \<and> 0 \<le> lo \<and> hi \<le> 100)) \<and>
   (temperature d = Some tv \<and> humidity d = Some hv \<and> present hv \<noteq> [] \<longrightarrow>
      (\<exists>lo hi. bounds (humidityChart (ward_apply d w)) = (Some lo, Some hi) \<and>
         lo = max 0 (spec_min hv - spec_pad 2 hv) \<and>
         hi = min 100 (spec_max hv + spec_pad 2 hv) \<and> 0 \<le> lo \<and> hi \<le> 100)) \<and>
   (temperature d = Some tv \<and> humidity d = Some [Num 98, Num 100] \<longrightarrow>
      y_max (humidityChart (ward_apply d w)) = Some 100)"
proof (intro conjI impI)
  assume a: "temperature d = Some tv \<and> humidity d = Some [Num 98, Num 100]"
  have "y_max (scale_humidity [Num 98, Num 100] c) = Some 100" for c
    by (simp add: scale_humidity_def Math_min_def Math_max_def Let_def)
  with a show "y_max (humidityChart (ward_apply d w)) = Some 100"
    by (simp add: ward_then_humidity chart_update_def)
qed (simp_all add: patient_then_oxygen ward_then_humidity bounds_scale_oxygen
      bounds_scale_humidity)

theorem percentage_clamp_witness:
  "bounds (humidityChart (ward_apply humid_ward_payload fresh_ward)) = (Some 96, Some 100) \<and>
   bounds (oxygenChart (patient_apply vitals_payload fresh_patient)) = (Some 96, Some 100)"
  using percentage_clamp [of humid_ward_payload "[Num 21, Num 22]" "[]" fresh_patient
      "[Num 98, Num 100]" fresh_ward]
    percentage_clamp [of vitals_payload "[Num 10, Null, Num 12]" "[Num 97, Num 99, Undefined]"
      fresh_patient "[]" fresh_ward]
  by (simp add: humid_ward_payload_def vitals_payload_def no_fields_def spec_min_present
      spec_max_present spec_pad_def)

lemma non_absent_empty_iff: "non_absent vs = {} \<longleftrightarrow> present vs = []"
  by (simp add: set_present [symmetric])

lemma non_absent_present: "non_absent vs \<noteq> {} \<Longrightarrow> present vs \<noteq> []"
  by (simp only: non_absent_empty_iff not_False_eq_True)

lemma patient_temperature_over_numbers:
  assumes "temperature d = Some tv"
    and n: "non_absent tv \<noteq> {}"
  shows "bounds (patient.temperatureChart (patient_apply d p)) =
     (Some (Min (non_absent tv) - range_pad 0.5 (non_absent tv)),
      Some (Max (non_absent tv) + range_pad 0.5 (non_absent tv)))"
proof -
  from n have "present tv \<noteq> []"
    by (rule non_absent_present)
  from bounds_scale_temperature [OF this] show ?thesis
    by (simp add: patient_then_temperature [OF assms(1)] spec_pad_def spec_min_max_numbers)
qed

lemma ward_temperature_over_numbers:
  assumes "temperature d = Some tv"
    and n: "non_absent tv \<noteq> {}"
  shows "bounds (ward.temperatureChart (ward_apply d w)) =
     (Some (Min (non_absent tv) - range_pad 0.5 (non_absent tv)),
      Some (Max (non_absent tv) + range_pad 0.5 (non_absent tv)))"
proof -
  from n have "present tv \<noteq> []"
    by (rule non_absent_present)
  from bounds_scale_temperature [OF this] show ?thesis
    by (simp add: ward_then_temperature [OF assms(1)] spec_pad_def spec_min_max_numbers)
qed

lemma patient_oxygen_over_numbers:
  assumes "temperature d = Some tv"
    "oxygen_saturation d = Some ov"
    and n: "non_absent ov \<noteq> {}"
  shows "bounds (oxygenChart (patient_apply d p)) =
     (Some (max 0 (Min (non_absent ov) - range_pad 1 (non_absent ov))),
      Some (min 100 (Max (non_absent ov) + range_pad 1 (non_absent ov))))"
proof -
  from n have "present ov \<noteq> []"
    by (rule non_absent_present)
  from bounds_scale_oxygen [OF this] show ?thesis
    by (simp add: patient_then_oxygen [OF assms(1-2)] spec_pad_def spec_min_max_numbers)
qed

lemma ward_humidity_over_numbers:
  assumes "temperature d = Some tv"
    "humidity d = Some hv"
    and n: "non_absent hv \<noteq> {}"
  shows "bounds (humidityChart (ward_apply d w)) =
     (Some (max 0 (Min (non_absent hv) - range_pad 2 (non_absent hv))),
      Some (min 100 (Max (non_absent hv) + range_pad 2 (non_absent hv))))"
proof -
  from n have "present hv \<noteq> []"
    by (rule non_absent_present)
  from bounds_scale_humidity [OF this] show ?thesis
    by (simp add: ward_then_humidity [OF assms(1-2)] spec_pad_def spec_min_max_numbers)
qed

lemma ward_noise_over_numbers:
  assumes "temperature d = Some tv"
    "humidity d = Some hv"
    "noise_level d = Some nv"
    and n: "non_absent nv \<noteq> {}"
  shows "bounds (noiseChart (ward_apply d w)) =
     (Some (max 0 (Min (non_absent nv) - range_pad 2 (non_absent nv))),
      Some (Max (non_absent nv) + range_pad 2 (non_absent nv)))"
proof -
  from n have "present nv \<noteq> []"
    by (rule non_absent_present)
  from bounds_scale_noise [OF this] show ?thesis
    by (simp add: ward_then_noise [OF assms(1-3)] spec_pad_def spec_min_max_numbers)
qed

lemma ward_light_over_numbers:
  assumes "temperature d = Some tv"
    "humidity d = Some hv"
    "noise_level d = Some nv"
    "light_intensity d = Some lv"
    and n: "non_absent lv \<noteq> {}"
  shows "bounds (lightChart (ward_apply d w)) =
     (Some (max 0 (Min (non_absent lv) - range_pad 10 (non_absent lv))),
      Some (Max (non_absent lv) + range_pad 10 (non_absent lv)))"
proof -
  from n have "present lv \<noteq> []"
    by (rule non_absent_present)
  from bounds_scale_light [OF this] show ?thesis
    by (simp add: ward_then_light [OF assms(1-4)] spec_pad_def spec_min_max_numbers)
qed

text \<open>
  The bounds of a series and of the same series with its absent entries dropped are the
  same, an all-absent series leaves the bounds as they were, and [10, null, 12] is scaled
  as [10, 12] is.
\<close>

lemma filtered_series_same_bounds:
  "(temperature d = Some tv \<longrightarrow>
      bounds (patient.temperatureChart (patient_apply d p)) =
        bounds (patient.temperatureChart
          (patient_apply (d\<lparr>temperature := Some (map Num (present tv))\<rparr>) p)) \<and>
      bounds (ward.temperatureChart (ward_apply d w)) =
        bounds (ward.temperatureChart
          (ward_apply (d\<lparr>temperature := Some (map Num (present tv))\<rparr>) w)) \<and>
      (set tv \<subseteq> {Null, Undefined} \<longrightarrow>
         bounds (patient.temperatureChart (patient_apply d p)) =
           bounds (patient.temperatureChart p) \<and>
         bounds (ward.temperatureChart (ward_apply d w)) = bounds (ward.temperatureChart w))) \<and>
   (temperature d = Some tv \<and> oxygen_saturation d = Some ov \<longrightarrow>
      bounds (oxygenChart (patient_apply d p)) =
        bounds (oxygenChart
          (patient_apply (d\<lparr>oxygen_saturation := Some (map Num (present ov))\<rparr>) p)) \<and>
      (set ov \<subseteq> {Null, Undefined} \<longrightarrow>
         bounds (oxygenChart (patient_apply d p)) = bounds (oxygenChart p))) \<and>
   (temperature d = Some tv \<and> humidity d = Some hv \<longrightarrow>
      bounds (humidityChart (ward_apply d w)) =
        bounds (humidityChart (ward_apply (d\<lparr>humidity := Some (map Num (present hv))\<rparr>) w)) \<and>
      (set hv \<subseteq> {Null, Undefined} \<longrightarrow>
         bounds (humidityChart (ward_apply d w)) = bounds (humidityChart w))) \<and>
   (temperature d = Some tv \<and> humidity d = Some hv \<and> noise_level d = Some nv \<longrightarrow>
      bounds (noiseChart (ward_apply d w)) =
        bounds (noiseChart (ward_apply (d\<lparr>noise_level := Some (map Num (present nv))\<rparr>) w)) \<and>
      (set nv \<subseteq> {Null, Undefined} \<longrightarrow>
         bounds (noiseChart (ward_apply d w)) = bounds (noiseChart w))) \<and>
   (temperature d = Some tv \<and> humidity d = Some hv \<and> noise_level d = Some nv \<and>
    light_intensity d = Some lv \<longrightarrow>
      bounds (lightChart (ward_apply d w)) =
        bounds (lightChart
          (ward_apply (d\<lparr>light_intensity := Some (map Num (present lv))\<rparr>) w)) \<and>
      (set lv \<subseteq> {Null, Undefined} \<longrightarrow>
         bounds (lightChart (ward_apply d w)) = bounds (lightChart w))) \<and>
   (temperature d = Some [Num 10, Null, Num 12] \<longrightarrow>
      present [Num 10, Null, Num 12] = [10, 12] \<and>
      bounds (patient.temperatureChart (patient_apply d p)) = (Some 9.5, Some 12.5) \<and>
      bounds (patient.temperatureChart
        (patient_apply (d\<lparr>temperature := Some [Num 10, Num 12]\<rparr>) p)) = (Some 9.5, Some 12.5))"
proof (intro conjI impI; (elim conjE)?)
  have b: "bounds (scale_temperature [Num 10, Null, Num 12] c) = (Some 9.5, Some 12.5)"
    "bounds (scale_temperature [Num 10, Num 12] c) = (Some 9.5, Some 12.5)" for c
    by (simp_all add: scale_temperature_def bounds_def Math_min_def Math_max_def Let_def)
  assume a: "temperature d = Some [Num 10, Null, Num 12]"
  show "present [Num 10, Null, Num 12] = [10, 12]" by simp
  show "bounds (patient.temperatureChart (patient_apply d p)) = (Some 9.5, Some 12.5)"
    by (simp only: patient_then_temperature [OF a] bounds_chart_update b)
  show "bounds (patient.temperatureChart
        (patient_apply (d\<lparr>temperature := Some [Num 10, Num 12]\<rparr>) p)) = (Some 9.5, Some 12.5)"
    by (simp add: patient_then_temperature b)
qed (blast intro: patient_temperature_filtered ward_temperature_filtered
      patient_oxygen_filtered ward_humidity_filtered ward_noise_filtered ward_light_filtered
      all_absent_bounds)+

text \<open>
  C3. For every dynamic-axis series, the \<open>min\<close> and \<open>max\<close> that give the axis bounds are
  the least and the greatest of the numbers that occur in the series: null and undefined
  entries take no part, and the bounds are those of the series with its absent entries
  removed. When every value of the series is absent, the chart's bounds after apply are
  its bounds before. The series [10, null, 12] is scaled as [10, 12] is, to
  [9.5, 12.5].
\<close>

theorem absent_values_ignored:
  "((temperature d = Some tv \<and> non_absent tv \<noteq> {} \<longrightarrow>
       bounds (patient.temperatureChart (patient_apply d p)) =
          (Some (Min (non_absent tv) - range_pad 0.5 (non_absent tv)),
           Some (Max (non_absent tv) + range_pad 0.5 (non_absent tv))) \<and>
       bounds (ward.temperatureChart (ward_apply d w)) =
          (Some (Min (non_absent tv) - range_pad 0.5 (non_absent tv)),
           Some (Max (non_absent tv) + range_pad 0.5 (non_absent tv)))) \<and>
    (temperature d = Some tv \<and> oxygen_saturation d = Some ov \<and> non_absent ov \<noteq> {} \<longrightarrow>
       bounds (oxygenChart (patient_apply d p)) =
          (Some (max 0 (Min (non_absent ov) - range_pad 1 (non_absent ov))),
           Some (min 100 (Max (non_absent ov) + range_pad 1 (non_absent ov))))) \<and>
    (temperature d = Some tv \<and> humidity d = Some hv \<and> non_absent hv \<noteq> {} \<longrightarrow>
       bounds (humidityChart (ward_apply d w)) =
          (Some (max 0 (Min (non_absent hv) - range_pad 2 (non_absent hv))),
           Some (min 100 (Max (non_absent hv) + range_pad 2 (non_absent hv))))) \<and>
    (temperature d = Some tv \<and> humidity d = Some hv \<and> noise_level d = Some nv \<and>
     non_absent nv \<noteq> {} \<longrightarrow>
       bounds (noiseChart (ward_apply d w)) =
          (Some (max 0 (Min (non_absent nv) - range_pad 2 (non_absent nv))),
           Some (Max (non_absent nv) + range_pad 2 (non_absent nv)))) \<and>
    (temperature d = Some tv \<and> humidity d = Some hv \<and> noise_level d = Some nv \<and>
     light_intensity d = Some lv \<and> non_absent lv \<noteq> {} \<longrightarrow>
       bounds (lightChart (ward_apply d w)) =
          (Some (max 0 (Min (non_absent lv) - range_pad 10 (non_absent lv))),
           Some (Max (non_absent lv) + range_pad 10 (non_absent lv))))) \<and>
   ((temperature d = Some tv \<longrightarrow>
      bounds (patient.temperatureChart (patient_apply d p)) =
        bounds (patient.temperatureChart
          (patient_apply (d\<lparr>temperature := Some (map Num (present tv))\<rparr>) p)) \<and>
      bounds (ward.temperatureChart (ward_apply d w)) =
        bounds (ward.temperatureChart
          (ward_apply (d\<lparr>temperature := Some (map Num (present tv))\<rparr>) w)) \<and>
      (set tv \<subseteq> {Null, Undefined} \<longrightarrow>
         bounds (patient.temperatureChart (patient_apply d p)) =
           bounds (patient.temperatureChart p) \<and>
         bounds (ward.temperatureChart (ward_apply d w)) = bounds (ward.temperatureChart w))) \<and>
   (temperature d = Some tv \<and> oxygen_saturation d = Some ov \<longrightarrow>
      bounds (oxygenChart (patient_apply d p)) =
        bounds (oxygenChart
          (patient_apply (d\<lparr>oxygen_saturation := Some (map Num (present ov))\<rparr>) p)) \<and>
      (set ov \<subseteq> {Null, Undefined} \<longrightarrow>
         bounds (oxygenChart (patient_apply d p)) = bounds (oxygenChart p))) \<and>
   (temperature d = Some tv \<and> humidity d = Some hv \<longrightarrow>
      bounds (humidityChart (ward_apply d w)) =
        bounds (humidityChart (ward_apply (d\<lparr>humidity := Some (map Num (present hv))\<rparr>) w)) \<and>
      (set hv \<subseteq> {Null, Undefined} \<longrightarrow>
         bounds (humidityChart (ward_apply d w)) = bounds (humidityChart w))) \<and>
   (temperature d = Some tv \<and> humidity d = Some hv \<and> noise_level d = Some nv \<longrightarrow>
      bounds (noiseChart (ward_apply d w)) =
        bounds (noiseChart (ward_apply (d\<lparr>noise_level := Some (map Num (present nv))\<rparr>) w)) \<and>
      (set nv \<subseteq> {Null, Undefined} \<longrightarrow>
         bounds (noiseChart (ward_apply d w)) = bounds (noiseChart w))) \<and>
   (temperature d = Some tv \<and> humidity d = Some hv \<and> noise_level d = Some nv \<and>
    light_intensity d = Some lv \<longrightarrow>
      bounds (lightChart (ward_apply d w)) =
        bounds (lightChart
          (ward_apply (d\<lparr>light_intensity := Some (map Num (present lv))\<rparr>) w)) \<and>
      (set lv \<subseteq> {Null, Undefined} \<longrightarrow>
         bounds (lightChart (ward_apply d w)) = bounds (lightChart w))) \<and>
   (temperature d = Some [Num 10, Null, Num 12] \<longrightarrow>
      present [Num 10, Null, Num 12] = [10, 12] \<and>
      bounds (patient.temperatureChart (patient_apply d p)) = (Some 9.5, Some 12.5) \<and>
      bounds (patient.temperatureChart
        (patient_apply (d\<lparr>temperature := Some [Num 10, Num 12]\<rparr>) p)) = (Some 9.5, Some 12.5)))"
proof (rule conjI)
  show "(temperature d = Some tv \<and> non_absent tv \<noteq> {} \<longrightarrow>
       bounds (patient.temperatureChart (patient_apply d p)) =
          (Some (Min (non_absent tv) - range_pad 0.5 (non_absent tv)),
           Some (Max (non_absent tv) + range_pad 0.5 (non_absent tv))) \<and>
       bounds (ward.temperatureChart (ward_apply d w)) =
          (Some (Min (non_absent tv) - range_pad 0.5 (non_absent tv)),
           Some (Max (non_absent tv) + range_pad 0.5 (non_absent tv)))) \<and>
    (temperature d = Some tv \<and> oxygen_saturation d = Some ov \<and> non_absent ov \<noteq> {} \<longrightarrow>
       bounds (oxygenChart (patient_apply d p)) =
          (Some (max 0 (Min (non_absent ov) - range_pad 1 (non_absent ov))),
           Some (min 100 (Max (non_absent ov) + range_pad 1 (non_absent ov))))) \<and>
    (temperature d = Some tv \<and> humidity d = Some hv \<and> non_absent hv \<noteq> {} \<longrightarrow>
       bounds (humidityChart (ward_apply d w)) =
          (Some (max 0 (Min (non_absent hv) - range_pad 2 (non_absent hv))),
           Some (min 100 (Max (non_absent hv) + range_pad 2 (non_absent hv))))) \<and>
    (temperature d = Some tv \<and> humidity d = Some hv \<and> noise_level d = Some nv \<and>
     non_absent nv \<noteq> {} \<longrightarrow>
       bounds (noiseChart (ward_apply d w)) =
          (Some (max 0 (Min (non_absent nv) - range_pad 2 (non_absent nv))),
           Some (Max (non_absent nv) + range_pad 2 (non_absent nv)))) \<and>
    (temperature d = Some tv \<and> humidity d = Some hv \<and> noise_level d = Some nv \<and>
     light_intensity d = Some lv \<and> non_absent lv \<noteq> {} \<longrightarrow>
       bounds (lightChart (ward_apply d w)) =
          (Some (max 0 (Min (non_absent lv) - range_pad 10 (non_absent lv))),
           Some (Max (non_absent lv) + range_pad 10 (non_absent lv))))"
    by (intro conjI impI; elim conjE;
        rule patient_temperature_over_numbers ward_temperature_over_numbers
          patient_oxygen_over_numbers ward_humidity_over_numbers ward_noise_over_numbers
          ward_light_over_numbers; assumption)
  show "(temperature d = Some tv \<longrightarrow>
      bounds (patient.temperatureChart (patient_apply d p)) =
        bounds (patient.temperatureChart
          (patient_apply (d\<lparr>temperature := Some (map Num (present tv))\<rparr>) p)) \<and>
      bounds (ward.temperatureChart (ward_apply d w)) =
        bounds (ward.temperatureChart
          (ward_apply (d\<lparr>temperature := Some (map Num (present tv))\<rparr>) w)) \<and>
      (set tv \<subseteq> {Null, Undefined} \<longrightarrow>
         bounds (patient.temperatureChart (patient_apply d p)) =
           bounds (patient.temperatureChart p) \<and>
         bounds (ward.temperatureChart (ward_apply d w)) = bounds (ward.temperatureChart w))) \<and>
   (temperature d = Some tv \<and> oxygen_saturation d = Some ov \<longrightarrow>
      bounds (oxygenChart (patient_apply d p)) =
        bounds (oxygenChart
          (patient_apply (d\<lparr>oxygen_saturation := Some (map Num (present ov))\<rparr>) p)) \<and>
      (set ov \<subseteq> {Null, Undefined} \<longrightarrow>
         bounds (oxygenChart (patient_apply d p)) = bounds (oxygenChart p))) \<and>
   (temperature d = Some tv \<and> humidity d = Some hv \<longrightarrow>
      bounds (humidityChart (ward_apply d w)) =
        bounds (humidityChart (ward_apply (d\<lparr>humidity := Some (map Num (present hv))\<rparr>) w)) \<and>
      (set hv \<subseteq> {Null, Undefined} \<longrightarrow>
         bounds (humidityChart (ward_apply d w)) = bounds (humidityChart w))) \<and>
   (temperature d = Some tv \<and> humidity d = Some hv \<and> noise_level d = Some nv \<longrightarrow>
      bounds (noiseChart (ward_apply d w)) =
        bounds (noiseChart (ward_apply (d\<lparr>noise_level := Some (map Num (present nv))\<rparr>) w)) \<and>
      (set nv \<subseteq> {Null, Undefined} \<longrightarrow>
         bounds (noiseChart (ward_apply d w)) = bounds (noiseChart w))) \<and>
   (temperature d = Some tv \<and> humidity d = Some hv \<and> noise_level d = Some nv \<and>
    light_intensity d = Some lv \<longrightarrow>
      bounds (lightChart (ward_apply d w)) =
        bounds (lightChart
          (ward_apply (d\<lparr>light_intensity := Some (map Num (present lv))\<rparr>) w)) \<and>
      (set lv \<subseteq> {Null, Undefined} \<longrightarrow>
         bounds (lightChart (ward_apply d w)) = bounds (lightChart w))) \<and>
   (temperature d = Some [Num 10, Null, Num 12] \<longrightarrow>
      present [Num 10, Null, Num 12] = [10, 12] \<and>
      bounds (patient.temperatureChart (patient_apply d p)) = (Some 9.5, Some 12.5) \<and>
      bounds (patient.temperatureChart
        (patient_apply (d\<lparr>temperature := Some [Num 10, Num 12]\<rparr>) p)) = (Some 9.5, Some 12.5))"
    by (rule filtered_series_same_bounds)
qed

theorem absent_values_ignored_witness:
  "bounds (patient.temperatureChart (patient_apply unsorted_payload fresh_patient)) =
     (Some 9.5, Some 12.5) \<and>
   bounds (ward.temperatureChart (ward_apply unsorted_payload fresh_ward)) =
     (Some 9.5, Some 12.5) \<and>
   bounds (oxygenChart (patient_apply unsorted_payload fresh_patient)) =
     (Some 96, Some 100) \<and>
   bounds (humidityChart (ward_apply unsorted_payload fresh_ward)) = (Some 38, Some 47) \<and>
   bounds (noiseChart (ward_apply unsorted_payload fresh_ward)) = (Some 28, Some 52) \<and>
   bounds (lightChart (ward_apply unsorted_payload fresh_ward)) = (Some 290, Some 330) \<and>
   bounds (patient.temperatureChart (patient_apply vitals_payload fresh_patient)) =
     (Some 9.5, Some 12.5) \<and>
   bounds (humidityChart (ward_apply dark_ward_payload fresh_ward)) =
     bounds (humidityChart (ward_apply
       (dark_ward_payload\<lparr>humidity := Some [Num 40, Num 45]\<rparr>) fresh_ward)) \<and>
   bounds (lightChart (ward_apply dark_ward_payload fresh_ward)) = (None, None)"
proof -
  have u: "temperature unsorted_payload = Some [Num 12, Null, Num 10]"
    "oxygen_saturation unsorted_payload = Some [Undefined, Num 99, Num 97]"
    "humidity unsorted_payload = Some [Num 45, Null, Num 40]"
    "noise_level unsorted_payload = Some [Null, Num 50, Num 30]"
    "light_intensity unsorted_payload = Some [Num 320, Num 300, Undefined]"
    by (simp_all add: unsorted_payload_def no_fields_def)
  have e: "non_absent [Num 12, Null, Num 10] \<noteq> {}"
    "non_absent [Undefined, Num 99, Num 97] \<noteq> {}"
    "non_absent [Num 45, Null, Num 40] \<noteq> {}"
    "non_absent [Null, Num 50, Num 30] \<noteq> {}"
    "non_absent [Num 320, Num 300, Undefined] \<noteq> {}"
    by (simp_all only: non_absent_empty_iff) simp_all
  have v: "temperature vitals_payload = Some [Num 10, Null, Num 12]"
    by (simp add: vitals_payload_def no_fields_def)
  have d: "temperature dark_ward_payload = Some [Num 20, Num 22, Num 24]"
    "humidity dark_ward_payload = Some [Num 40, Null, Num 45]"
    "noise_level dark_ward_payload = Some [Num 1, Null, Num 2]"
    "light_intensity dark_ward_payload = Some [Null, Null, Undefined]"
    by (simp_all add: dark_ward_payload_def sample_payload_def no_fields_def)
  have a: "set [Null, Null, Undefined] \<subseteq> {Null, Undefined}"
    by simp
  note t = absent_values_ignored [of unsorted_payload "[Num 12, Null, Num 10]" fresh_patient
      fresh_ward "[Undefined, Num 99, Num 97]" "[Num 45, Null, Num 40]"
      "[Null, Num 50, Num 30]" "[Num 320, Num 300, Undefined]"]
  note p = absent_values_ignored [of vitals_payload "[Num 10, Null, Num 12]" fresh_patient
      fresh_ward "[]" "[]" "[]" "[]"]
  note w = absent_values_ignored [of dark_ward_payload "[Num 20, Num 22, Num 24]"
      fresh_patient fresh_ward "[]" "[Num 40, Null, Num 45]" "[Num 1, Null, Num 2]"
      "[Null, Null, Undefined]"]
  note pin = t [THEN conjunct1]
  note 1 = pin [THEN conjunct1, THEN mp, OF conjI [OF u(1) e(1)]]
  note 2 = pin [THEN conjunct2, THEN conjunct1, THEN mp,
      OF conjI [OF u(1) conjI [OF u(2) e(2)]]]
  note 3 = pin [THEN conjunct2, THEN conjunct2, THEN conjunct1, THEN mp,
      OF conjI [OF u(1) conjI [OF u(3) e(3)]]]
  note 4 = pin [THEN conjunct2, THEN conjunct2, THEN conjunct2, THEN conjunct1, THEN mp,
      OF conjI [OF u(1) conjI [OF u(3) conjI [OF u(4) e(4)]]]]
  note 5 = pin [THEN conjunct2, THEN conjunct2, THEN conjunct2, THEN conjunct2, THEN mp,
      OF conjI [OF u(1) conjI [OF u(3) conjI [OF u(4) conjI [OF u(5) e(5)]]]]]
  have 6: "bounds (patient.temperatureChart (patient_apply vitals_payload fresh_patient)) =
     (Some 9.5, Some 12.5)"
    using p [THEN conjunct2] v by blast
  have 7: "bounds (humidityChart (ward_apply dark_ward_payload fresh_ward)) =
     bounds (humidityChart (ward_apply
       (dark_ward_payload\<lparr>humidity := Some (map Num (present [Num 40, Null, Num 45]))\<rparr>)
       fresh_ward))"
    using w [THEN conjunct2] d by blast
  have 8: "bounds (lightChart (ward_apply dark_ward_payload fresh_ward)) =
     bounds (lightChart fresh_ward)"
    using w [THEN conjunct2] d a by blast
  have n: "non_absent [Num 12, Null, Num 10] = {12, 10}"
    "non_absent [Undefined, Num 99, Num 97] = {99, 97}"
    "non_absent [Num 45, Null, Num 40] = {45, 40}"
    "non_absent [Null, Num 50, Num 30] = {50, 30}"
    "non_absent [Num 320, Num 300, Undefined] = {320, 300}"
    by (simp_all only: set_present [symmetric]) simp_all
  have 9: "bounds (patient.temperatureChart (patient_apply unsorted_payload fresh_patient)) =
     (Some 9.5, Some 12.5)"
    "bounds (ward.temperatureChart (ward_apply unsorted_payload fresh_ward)) =
     (Some 9.5, Some 12.5)"
    "bounds (oxygenChart (patient_apply unsorted_payload fresh_patient)) =
     (Some 96, Some 100)"
    "bounds (humidityChart (ward_apply unsorted_payload fresh_ward)) = (Some 38, Some 47)"
    "bounds (noiseChart (ward_apply unsorted_payload fresh_ward)) = (Some 28, Some 52)"
    "bounds (lightChart (ward_apply unsorted_payload fresh_ward)) = (Some 290, Some 330)"
    using 1 2 3 4 5 unfolding n by simp_all
  have 10: "bounds (lightChart fresh_ward) = (None, None)"
    by (simp add: fresh_ward_def empty_chart_def bounds_def)
  have 11: "map Num (present [Num 40, Null, Num 45]) = [Num 40, Num 45]"
    by simp
  show ?thesis
    using 6 7 8 9 unfolding 10 11 by simp
qed

section \<open>Cross-ward snapshot: what the functions do\<close>

lemma vars_console_log [simp]: "vars (console_log m s) = vars s"
  by (simp add: console_log_def)

lemma vars_console_error [simp]: "vars (console_error m s) = vars s"
  by (simp add: console_error_def)

lemma in_flight_console_log [simp]: "in_flight (console_log m s) = in_flight s"
  by (simp add: console_log_def)

lemma in_flight_console_error [simp]: "in_flight (console_error m s) = in_flight s"
  by (simp add: console_error_def)

lemma chart_update_set_series: "chart_update (set_series ls vs c) = replaced ls vs c"
  by (simp add: chart_update_def set_series_def replaced_def)

lemma or_empty_Some [simp]: "or_empty (Some vs) = Some vs"
  by (simp add: or_empty_def)

lemma or_empty_None [simp]: "or_empty None = Some []"
  by (simp add: or_empty_def)

lemma all_instances_Some_iff:
  "all_instances g = Some (t, h, n, l) \<longleftrightarrow>
     temperatureChartInstance g = Some t \<and> humidityChartInstance g = Some h \<and>
     noiseChartInstance g = Some n \<and> lightChartInstance g = Some l"
  by (auto simp: all_instances_def split: option.splits)

lemma all_canvases_None_iff:
  "all_canvases doc = None \<longleftrightarrow>
     tempCtx doc = None \<or> humCtx doc = None \<or> noiseCtx doc = None \<or> lightCtx doc = None"
  by (auto simp: all_canvases_def split: option.splits)

lemma updateChartData_uninitialized:
  "all_instances (vars s) = None \<Longrightarrow> updateChartData S j s = (None, s)"
  by (simp add: updateChartData_def)

lemma updateChartData_null:
  "all_instances (vars s) = Some i \<Longrightarrow>
   updateChartData S JsonNull s = (Some TypeError, console_log ''Updating charts with new data:'' s)"
  by (cases i) (simp add: updateChartData_def)

lemma updateChartData_initialized:
  assumes "all_instances (vars s) = Some (t, h, n, l)"
  shows "fst (updateChartData S (JsonObject d) s) = None"
    and "temperatureChartInstance (vars (snapshot_apply S d s)) =
      Some (replaced (wards d) (temperature d) t)"
    and "humidityChartInstance (vars (snapshot_apply S d s)) =
      Some (replaced (wards d) (humidity d) h)"
    and "noiseChartInstance (vars (snapshot_apply S d s)) =
      Some (replaced (wards d) (or_empty (noise d)) n)"
    and "lightChartInstance (vars (snapshot_apply S d s)) =
      Some (replaced (wards d) (or_empty (light_intensity d)) l)"
    and "chartDataScript (document (vars (snapshot_apply S d s))) =
      (case chartDataScript (document (vars s)) of None \<Rightarrow> None
       | Some old \<Rightarrow> Some (S (JsonObject d)))"
    and "all_canvases (document (vars (snapshot_apply S d s))) = all_canvases (document (vars s))"
    and "console (snapshot_apply S d s) = console s @ [Log ''Updating charts with new data:'']"
    and "in_flight (snapshot_apply S d s) = in_flight s"
  using assms
  by (simp_all add: updateChartData_def update_instances_def chart_update_set_series
      console_log_def all_canvases_def Let_def split: option.splits)

lemma renderCharts_missing_canvas:
  assumes "all_canvases (document (vars s)) = None"
  shows "fst (renderCharts P s) = None" and "vars (snd (renderCharts P s)) = vars s"
    and "in_flight (snd (renderCharts P s)) = in_flight s"
  using assms
  by (simp_all add: renderCharts_def Let_def console_log_def console_error_def
      split: option.splits)

lemma renderCharts_missing_canvas_console:
  assumes "all_canvases (document (vars s)) = None"
    and "chartDataScript (document (vars s)) = Some content" and "P (trim content) = Some data"
  shows "console (snd (renderCharts P s)) = console s @
     [Log ''renderCharts() called'', Log ''Raw chart data:'', Log ''Parsed chart data:'',
      Log ''Canvas elements found:'', Log ''Chart canvas elements not found'']"
  using assms by (simp add: renderCharts_def Let_def console_log_def)

lemma renderCharts_update_branch:
  assumes "chartDataScript (document (vars s)) = Some content"
    and "P (trim content) = Some (JsonObject d)"
    and "all_canvases (document (vars s)) = Some cs"
    and "all_instances (vars s) = Some (t, h, n, l)"
  shows "fst (renderCharts P s) = None"
    and "vars (snd (renderCharts P s)) = update_instances d t h n l (vars s)"
  using assms
  by (cases cs; simp add: renderCharts_def Let_def console_log_def)+

lemma snapshot_loaded_sample:
  "vars (snapshot_loaded sample_document) =
     \<lparr>temperatureChartInstance = Some (page_chart [Num 21, Num 22] None),
      humidityChartInstance = Some (page_chart [Num 40, Num 45] (Some 100)),
      noiseChartInstance = Some (page_chart [Num 30, Num 35] None),
      lightChartInstance = Some (page_chart [Num 300, Num 310] None),
      document = sample_document\<rparr>"
  by (simp add: snapshot_loaded_def renderCharts_def initial_globals_def sample_document_def
      console_log_def console_error_def Let_def trim_def is_space_def sample_parse_def
      all_canvases_def all_instances_def create_charts_def page_json_def no_fields_def
      new_Chart_def or_empty_def page_chart_def)

lemma snapshot_loaded_busy_noise:
  "vars (snapshot_loaded busy_noise_document) =
     \<lparr>temperatureChartInstance = Some (page_chart [Num 21, Num 22] None),
      humidityChartInstance = Some (page_chart [Num 40, Num 45] (Some 100)),
      noiseChartInstance = None,
      lightChartInstance = Some (page_chart [Num 300, Num 310] None),
      document = busy_noise_document\<rparr>"
  by (simp add: snapshot_loaded_def renderCharts_def initial_globals_def sample_document_def
      busy_noise_document_def
      console_log_def console_error_def Let_def trim_def is_space_def sample_parse_def
      all_canvases_def all_instances_def create_charts_def page_json_def no_fields_def
      new_Chart_def or_empty_def page_chart_def)

lemma snapshot_loaded_busy_light:
  "vars (snapshot_loaded busy_light_document) =
     \<lparr>temperatureChartInstance = Some (page_chart [Num 21, Num 22] None),
      humidityChartInstance = Some (page_chart [Num 40, Num 45] (Some 100)),
      noiseChartInstance = Some (page_chart [Num 30, Num 35] None),
      lightChartInstance = None,
      document = busy_light_document\<rparr>"
  by (simp add: snapshot_loaded_def renderCharts_def initial_globals_def sample_document_def
      busy_light_document_def
      console_log_def console_error_def Let_def trim_def is_space_def sample_parse_def
      all_canvases_def all_instances_def create_charts_def page_json_def no_fields_def
      new_Chart_def or_empty_def page_chart_def)

lemma all_instances_loaded_sample:
  "all_instances (vars (snapshot_loaded sample_document)) =
      Some ((page_chart [Num 21, Num 22] None),
       (page_chart [Num 40, Num 45] (Some 100)),
       (page_chart [Num 30, Num 35] None),
       (page_chart [Num 300, Num 310] None))"
  by (simp add: snapshot_loaded_sample all_instances_def)

section \<open>Alignment of labels and values\<close>

lemma aligned_replaced:
  "aligned (replaced ls vs c) = series_aligned ls vs"
  by (simp add: aligned_def replaced_def)

lemma series_aligned_or_empty:
  "series_aligned ls vs \<Longrightarrow> or_empty vs = vs"
  by (cases vs) (simp_all add: series_aligned_def split: option.splits)

lemma series_aligned_SomeD:
  "series_aligned ls vs \<Longrightarrow> \<exists>l v. ls = Some l \<and> vs = Some v \<and> length v = length l"
  by (auto simp: series_aligned_def split: option.splits)

lemma patient_then_all:
  assumes "temperature d = Some tv" "oxygen_saturation d = Some ov"
  shows "fst (updateCharts_patient_then (JsonObject d) p) = None"
    and "chart_labels (heartRateChart (patient_apply d p)) = labels d"
    and "chart_data (heartRateChart (patient_apply d p)) = heart_rate d"
    and "chart_labels (patient.temperatureChart (patient_apply d p)) = labels d"
    and "chart_data (patient.temperatureChart (patient_apply d p)) = temperature d"
    and "chart_labels (oxygenChart (patient_apply d p)) = labels d"
    and "chart_data (oxygenChart (patient_apply d p)) = oxygen_saturation d"
  using assms
  by (simp_all add: updateCharts_patient_then_def Let_def set_series_def chart_update_def
      scale_temperature_def scale_oxygen_def split: list.splits)

lemma ward_then_all:
  assumes "temperature d = Some tv" "humidity d = Some hv" "noise_level d = Some nv"
    "light_intensity d = Some lv"
  shows "fst (updateCharts_ward_then (JsonObject d) w) = None"
    and "chart_labels (ward.temperatureChart (ward_apply d w)) = labels d"
    and "chart_data (ward.temperatureChart (ward_apply d w)) = temperature d"
    and "chart_labels (humidityChart (ward_apply d w)) = labels d"
    and "chart_data (humidityChart (ward_apply d w)) = humidity d"
    and "chart_labels (noiseChart (ward_apply d w)) = labels d"
    and "chart_data (noiseChart (ward_apply d w)) = noise_level d"
    and "chart_labels (lightChart (ward_apply d w)) = labels d"
    and "chart_data (lightChart (ward_apply d w)) = light_intensity d"
  using assms
  by (simp_all add: updateCharts_ward_then_def Let_def set_series_def chart_update_def
      scale_temperature_def scale_humidity_def scale_noise_def scale_light_def
      split: list.splits)

lemma patient_alignment:
  assumes "series_aligned (labels d) (heart_rate d)" "series_aligned (labels d) (temperature d)"
    "series_aligned (labels d) (oxygen_saturation d)"
  shows "aligned (heartRateChart (patient_apply d p)) \<and>
     aligned (patient.temperatureChart (patient_apply d p)) \<and>
     aligned (oxygenChart (patient_apply d p)) \<and>
     chart_labels (heartRateChart (patient_apply d p)) = labels d \<and>
     chart_labels (patient.temperatureChart (patient_apply d p)) = labels d \<and>
     chart_labels (oxygenChart (patient_apply d p)) = labels d"
proof -
  obtain tv ov where "temperature d = Some tv" "oxygen_saturation d = Some ov"
    using assms(2,3) by (blast dest: series_aligned_SomeD)
  from patient_then_all(2-7) [OF this] assms show ?thesis
    by (simp add: aligned_def)
qed

lemma ward_alignment:
  assumes "series_aligned (labels d) (temperature d)" "series_aligned (labels d) (humidity d)"
    "series_aligned (labels d) (noise_level d)" "series_aligned (labels d) (light_intensity d)"
  shows "aligned (ward.temperatureChart (ward_apply d w)) \<and>
     aligned (humidityChart (ward_apply d w)) \<and>
     aligned (noiseChart (ward_apply d w)) \<and>
     aligned (lightChart (ward_apply d w)) \<and>
     chart_labels (ward.temperatureChart (ward_apply d w)) = labels d \<and>
     chart_labels (humidityChart (ward_apply d w)) = labels d \<and>
     chart_labels (noiseChart (ward_apply d w)) = labels d \<and>
     chart_labels (lightChart (ward_apply d w)) = labels d"
proof -
  obtain tv hv nv lv where "temperature d = Some tv" "humidity d = Some hv"
    "noise_level d = Some nv" "light_intensity d = Some lv"
    using assms by (blast dest: series_aligned_SomeD)
  from ward_then_all(2-9) [OF this] assms show ?thesis
    by (simp add: aligned_def)
qed

lemma snapshot_alignment_initialized:
  assumes i: "all_instances (vars s) = Some (t, h, n, l)"
    and a: "series_aligned (wards d) (temperature d)" "series_aligned (wards d) (humidity d)"
      "series_aligned (wards d) (noise d)" "series_aligned (wards d) (light_intensity d)"
  shows "temperatureChartInstance (vars (snapshot_apply S d s)) =
       Some (replaced (wards d) (temperature d) t) \<and>
     humidityChartInstance (vars (snapshot_apply S d s)) =
       Some (replaced (wards d) (humidity d) h) \<and>
     noiseChartInstance (vars (snapshot_apply S d s)) = Some (replaced (wards d) (noise d) n) \<and>
     lightChartInstance (vars (snapshot_apply S d s)) =
       Some (replaced (wards d) (light_intensity d) l) \<and>
     instances_aligned (vars (snapshot_apply S d s))"
  using a updateChartData_initialized(2-5) [OF i, of S d]
  by (simp add: instances_aligned_def instance_aligned_def aligned_replaced
      series_aligned_or_empty)

lemma snapshot_alignment_preserved:
  assumes a: "series_aligned (wards d) (temperature d)" "series_aligned (wards d) (humidity d)"
      "series_aligned (wards d) (noise d)" "series_aligned (wards d) (light_intensity d)"
    and b: "instances_aligned (vars s)"
  shows "instances_aligned (vars (snapshot_apply S d s))"
proof (cases "all_instances (vars s)")
  case None
  with b show ?thesis by (simp add: updateChartData_uninitialized)
next
  case (Some i)
  then obtain t h n l where "all_instances (vars s) = Some (t, h, n, l)"
    by (cases i) auto
  from snapshot_alignment_initialized [OF this a] show ?thesis by blast
qed

section \<open>Fetch failures\<close>

text \<open>
  \<^verbatim>\<open>fetchAndUpdateCharts\<close> throws on \<^verbatim>\<open>!response.ok\<close> before it reads the body, so
  each of the three failures leaves the charts as they were, logs the error, and the next
  tick starts a fetch as any tick does.
\<close>

lemma snapshot_failure_retains_charts:
  assumes "fetch_failed r"
  shows "vars (fetchAndUpdateCharts_settle S r s) = vars s"
    and "console (fetchAndUpdateCharts_settle S r s) =
      console s @ [Err ''Error fetching chart data:'']"
    and "in_flight (step_snapshot S Tick (fetchAndUpdateCharts_settle S r s)) = 
      Suc (in_flight s - 1)"
  using assms
  by (auto simp: fetch_failed_def fetchAndUpdateCharts_settle_def console_error_def Let_def
      step_snapshot_def fetchAndUpdateCharts_start_def console_log_def
      split: fetch_result.splits option.splits)

text \<open>
  On the two template pages the same holds for a rejected fetch and for a body that is
  not JSON. The status of the response is never read there.
\<close>

lemma template_failure_retains_charts:
  assumes "r = Rejected \<or> (\<exists>resp. r = Fulfilled resp \<and> body_json resp = None)"
  shows "vars (updateCharts_patient_settle r p) = vars p"
    and "console (updateCharts_patient_settle r p) =
      console p @ [Err ''Error fetching chart data:'']"
    and "vars (updateCharts_ward_settle r w) = vars w"
    and "console (updateCharts_ward_settle r w) =
      console w @ [Err ''Error fetching chart data:'']"
  using assms
  by (auto simp: updateCharts_patient_settle_def updateCharts_ward_settle_def
      console_error_def Let_def)

text \<open>
  C4. A refresh tick whose fetch fails (network error, non-success status, malformed
  payload) logs the error and leaves the charts as they were. The patient page does not
  do so for a non-success status: a response with status 500 and a JSON body without the
  series is parsed and applied, the heart rate chart loses its labels and data, and the
  error that is logged is the TypeError of the missing temperature series. The cross-ward
  script leaves its charts unchanged on the same response.
\<close>

theorem error_status_body_is_applied:
  "fetch_failed (Fulfilled error_response) \<and>
   chart_labels (heartRateChart (vars showing_patient)) =
     Some [''10:00'', ''10:05'', ''10:10''] \<and>
   chart_data (heartRateChart (vars showing_patient)) = Some [Num 70, Num 72, Null] \<and>
   chart_labels (heartRateChart
     (vars (updateCharts_patient_settle (Fulfilled error_response) showing_patient))) = None \<and>
   chart_data (heartRateChart
     (vars (updateCharts_patient_settle (Fulfilled error_response) showing_patient))) = None \<and>
   vars (updateCharts_patient_settle (Fulfilled error_response) showing_patient) \<noteq>
     vars showing_patient \<and>
   console (updateCharts_patient_settle (Fulfilled error_response) showing_patient) =
     [Log ''Chart data received:'', Err ''Error fetching chart data:''] \<and>
   vars (fetchAndUpdateCharts_settle sample_stringify (Fulfilled error_response)
     (snapshot_loaded sample_document)) = vars (snapshot_loaded sample_document)"
proof -
  have a: "vars (updateCharts_patient_settle (Fulfilled error_response) showing_patient) =
      (vars showing_patient)\<lparr>heartRateChart :=
         replaced None None (heartRateChart (vars showing_patient)),
       patient.temperatureChart :=
         set_series None None (patient.temperatureChart (vars showing_patient))\<rparr>"
    by (simp add: updateCharts_patient_settle_def error_response_def no_fields_def
        updateCharts_patient_then_def Let_def console_log_def console_error_def
        chart_update_set_series showing_patient_def)
  have b: "console (updateCharts_patient_settle (Fulfilled error_response) showing_patient) =
     [Log ''Chart data received:'', Err ''Error fetching chart data:'']"
    by (simp add: updateCharts_patient_settle_def error_response_def no_fields_def
        updateCharts_patient_then_def Let_def console_log_def console_error_def
        showing_patient_def)
  have c: "heartRateChart (vars showing_patient) =
      \<lparr>chart_labels = Some [''10:00'', ''10:05'', ''10:10''],
       chart_data = Some [Num 70, Num 72, Null], y_min = None, y_max = None, updates = 1\<rparr>"
    by (simp add: showing_patient_def patient_then_heart sample_payload_def no_fields_def
        fresh_patient_def empty_chart_def chart_update_set_series replaced_def)
  have d: "fetch_failed (Fulfilled error_response)"
    by (simp add: fetch_failed_def error_response_def ok_def)
  have e: "heartRateChart (vars (updateCharts_patient_settle (Fulfilled error_response)
      showing_patient)) = replaced None None (heartRateChart (vars showing_patient))"
    by (simp add: a)
  have f: "vars (updateCharts_patient_settle (Fulfilled error_response) showing_patient) \<noteq>
     vars showing_patient"
  proof
    assume "vars (updateCharts_patient_settle (Fulfilled error_response) showing_patient) =
      vars showing_patient"
    then have "heartRateChart (vars (updateCharts_patient_settle (Fulfilled error_response)
      showing_patient)) = heartRateChart (vars showing_patient)"
      by simp
    then show False
      by (simp add: e c replaced_def)
  qed
  show ?thesis
    using b d f snapshot_failure_retains_charts(1) [OF d]
    by (simp add: e c replaced_def)
qed

section \<open>Claims on apply and initialization\<close>

text \<open>
  C5, as amended. For a payload whose series all have the length of its label sequence,
  apply leaves every chart with the payload's labels and with data of that length: on the
  two template pages from any state, on the cross-ward snapshot when the four chart
  instances are initialized. When one of the four is not initialized, apply changes
  nothing there: a chart that exists keeps the labels and data it had, so charts that
  were aligned stay aligned, with the length they had.
\<close>

theorem alignment_preserved:
  "(series_aligned (labels d) (heart_rate d) \<and> series_aligned (labels d) (temperature d) \<and>
    series_aligned (labels d) (oxygen_saturation d) \<longrightarrow>
      aligned (heartRateChart (patient_apply d p)) \<and>
      aligned (patient.temperatureChart (patient_apply d p)) \<and>
      aligned (oxygenChart (patient_apply d p)) \<and>
      chart_labels (heartRateChart (patient_apply d p)) = labels d \<and>
      chart_labels (patient.temperatureChart (patient_apply d p)) = labels d \<and>
      chart_labels (oxygenChart (patient_apply d p)) = labels d) \<and>
   (series_aligned (labels d) (temperature d) \<and> series_aligned (labels d) (humidity d) \<and>
    series_aligned (labels d) (noise_level d) \<and>
    series_aligned (labels d) (light_intensity d) \<longrightarrow>
      aligned (ward.temperatureChart (ward_apply d w)) \<and>
      aligned (humidityChart (ward_apply d w)) \<and>
      aligned (noiseChart (ward_apply d w)) \<and>
      aligned (lightChart (ward_apply d w)) \<and>
      chart_labels (ward.temperatureChart (ward_apply d w)) = labels d \<and>
      chart_labels (humidityChart (ward_apply d w)) = labels d \<and>
      chart_labels (noiseChart (ward_apply d w)) = labels d \<and>
      chart_labels (lightChart (ward_apply d w)) = labels d) \<and>
   (series_aligned (wards d) (temperature d) \<and> series_aligned (wards d) (humidity d) \<and>
    series_aligned (wards d) (noise d) \<and> series_aligned (wards d) (light_intensity d) \<longrightarrow>
      (instances_aligned (vars s) \<longrightarrow> instances_aligned (vars (snapshot_apply S d s))) \<and>
      (all_instances (vars s) = Some (t, h, n, l) \<longrightarrow>
         temperatureChartInstance (vars (snapshot_apply S d s)) =
           Some (replaced (wards d) (temperature d) t) \<and>
         humidityChartInstance (vars (snapshot_apply S d s)) =
           Some (replaced (wards d) (humidity d) h) \<and>
         noiseChartInstance (vars (snapshot_apply S d s)) =
           Some (replaced (wards d) (noise d) n) \<and>
         lightChartInstance (vars (snapshot_apply S d s)) =
           Some (replaced (wards d) (light_intensity d) l) \<and>
         instances_aligned (vars (snapshot_apply S d s)))) \<and>
   (all_instances (vars s) = None \<longrightarrow> snapshot_apply S d s = s)"
proof (intro conjI)
  show "all_instances (vars s) = None \<longrightarrow> snapshot_apply S d s = s"
    by (simp add: updateChartData_uninitialized)
  show "series_aligned (labels d) (heart_rate d) \<and> series_aligned (labels d) (temperature d) \<and>
    series_aligned (labels d) (oxygen_saturation d) \<longrightarrow>
      aligned (heartRateChart (patient_apply d p)) \<and>
      aligned (patient.temperatureChart (patient_apply d p)) \<and>
      aligned (oxygenChart (patient_apply d p)) \<and>
      chart_labels (heartRateChart (patient_apply d p)) = labels d \<and>
      chart_labels (patient.temperatureChart (patient_apply d p)) = labels d \<and>
      chart_labels (oxygenChart (patient_apply d p)) = labels d"
    using patient_alignment [of d p] by blast
  show "series_aligned (labels d) (temperature d) \<and> series_aligned (labels d) (humidity d) \<and>
    series_aligned (labels d) (noise_level d) \<and>
    series_aligned (labels d) (light_intensity d) \<longrightarrow>
      aligned (ward.temperatureChart (ward_apply d w)) \<and>
      aligned (humidityChart (ward_apply d w)) \<and>
      aligned (noiseChart (ward_apply d w)) \<and>
      aligned (lightChart (ward_apply d w)) \<and>
      chart_labels (ward.temperatureChart (ward_apply d w)) = labels d \<and>
      chart_labels (humidityChart (ward_apply d w)) = labels d \<and>
      chart_labels (noiseChart (ward_apply d w)) = labels d \<and>
      chart_labels (lightChart (ward_apply d w)) = labels d"
    using ward_alignment [of d w] by blast
  show "series_aligned (wards d) (temperature d) \<and> series_aligned (wards d) (humidity d) \<and>
    series_aligned (wards d) (noise d) \<and> series_aligned (wards d) (light_intensity d) \<longrightarrow>
      (instances_aligned (vars s) \<longrightarrow> instances_aligned (vars (snapshot_apply S d s))) \<and>
      (all_instances (vars s) = Some (t, h, n, l) \<longrightarrow>
         temperatureChartInstance (vars (snapshot_apply S d s)) =
           Some (replaced (wards d) (temperature d) t) \<and>
         humidityChartInstance (vars (snapshot_apply S d s)) =
           Some (replaced (wards d) (humidity d) h) \<and>
         noiseChartInstance (vars (snapshot_apply S d s)) =
           Some (replaced (wards d) (noise d) n) \<and>
         lightChartInstance (vars (snapshot_apply S d s)) =
           Some (replaced (wards d) (light_intensity d) l) \<and>
         instances_aligned (vars (snapshot_apply S d s)))"
    using snapshot_alignment_preserved [of d s S]
      snapshot_alignment_initialized [of s t h n l d S] by blast
qed

theorem alignment_preserved_witness:
  "aligned (heartRateChart (patient_apply sample_payload fresh_patient)) \<and>
   aligned (patient.temperatureChart (patient_apply sample_payload fresh_patient)) \<and>
   aligned (oxygenChart (patient_apply sample_payload fresh_patient)) \<and>
   aligned (ward.temperatureChart (ward_apply sample_payload fresh_ward)) \<and>
   aligned (humidityChart (ward_apply sample_payload fresh_ward)) \<and>
   aligned (noiseChart (ward_apply sample_payload fresh_ward)) \<and>
   aligned (lightChart (ward_apply sample_payload fresh_ward)) \<and>
   chart_labels (lightChart (ward_apply sample_payload fresh_ward)) =
     Some [''10:00'', ''10:05'', ''10:10''] \<and>
   instances_aligned (vars (snapshot_apply sample_stringify fetched_json
     (snapshot_loaded sample_document))) \<and>
   noiseChartInstance (vars (snapshot_apply sample_stringify fetched_json
     (snapshot_loaded sample_document))) =
     Some \<lparr>chart_labels = Some [''A'', ''B'', ''C''],
       chart_data = Some [Num 30, Num 35, Num 40], y_min = None, y_max = None, updates = 1\<rparr>"
proof -
  have p: "series_aligned (labels sample_payload) (heart_rate sample_payload)"
    "series_aligned (labels sample_payload) (temperature sample_payload)"
    "series_aligned (labels sample_payload) (oxygen_saturation sample_payload)"
    "series_aligned (labels sample_payload) (humidity sample_payload)"
    "series_aligned (labels sample_payload) (noise_level sample_payload)"
    "series_aligned (labels sample_payload) (light_intensity sample_payload)"
    by (simp_all add: series_aligned_def sample_payload_def no_fields_def)
  have f: "series_aligned (wards fetched_json) (temperature fetched_json)"
    "series_aligned (wards fetched_json) (humidity fetched_json)"
    "series_aligned (wards fetched_json) (noise fetched_json)"
    "series_aligned (wards fetched_json) (light_intensity fetched_json)"
    by (simp_all add: series_aligned_def fetched_json_def no_fields_def)
  note t1 = alignment_preserved [of sample_payload fresh_patient fresh_ward]
  have "aligned (heartRateChart (patient_apply sample_payload fresh_patient)) \<and>
   aligned (patient.temperatureChart (patient_apply sample_payload fresh_patient)) \<and>
   aligned (oxygenChart (patient_apply sample_payload fresh_patient)) \<and>
   aligned (ward.temperatureChart (ward_apply sample_payload fresh_ward)) \<and>
   aligned (humidityChart (ward_apply sample_payload fresh_ward)) \<and>
   aligned (noiseChart (ward_apply sample_payload fresh_ward)) \<and>
   aligned (lightChart (ward_apply sample_payload fresh_ward)) \<and>
   chart_labels (lightChart (ward_apply sample_payload fresh_ward)) = labels sample_payload"
    using t1 p by blast
  moreover have "instances_aligned (vars (snapshot_apply sample_stringify fetched_json
     (snapshot_loaded sample_document))) \<and>
   noiseChartInstance (vars (snapshot_apply sample_stringify fetched_json
     (snapshot_loaded sample_document))) =
     Some (replaced (wards fetched_json) (noise fetched_json) (page_chart [Num 30, Num 35] None))"
    using alignment_preserved [of fetched_json _ _ "snapshot_loaded sample_document"
        sample_stringify "page_chart [Num 21, Num 22] None"
        "page_chart [Num 40, Num 45] (Some 100)" "page_chart [Num 30, Num 35] None"
        "page_chart [Num 300, Num 310] None"]
      f all_instances_loaded_sample by blast
  ultimately show ?thesis
    by (simp add: sample_payload_def fetched_json_def no_fields_def replaced_def page_chart_def)
qed

text \<open>
  C5 as it is written fails: after a page load on which the noise chart could not be
  constructed, apply of an aligned payload with three wards leaves the humidity chart
  with its two data points.
\<close>

theorem stale_length_counterexample:
  "series_aligned (wards fetched_json) (temperature fetched_json) \<and>
   series_aligned (wards fetched_json) (humidity fetched_json) \<and>
   series_aligned (wards fetched_json) (noise fetched_json) \<and>
   series_aligned (wards fetched_json) (light_intensity fetched_json) \<and>
   wards fetched_json = Some [''A'', ''B'', ''C''] \<and>
   humidityChartInstance (vars (snapshot_loaded busy_noise_document)) =
     Some (page_chart [Num 40, Num 45] (Some 100)) \<and>
   humidityChartInstance
     (vars (snapshot_apply sample_stringify fetched_json (snapshot_loaded busy_noise_document))) =
     Some (page_chart [Num 40, Num 45] (Some 100)) \<and>
   chart_data (page_chart [Num 40, Num 45] (Some 100)) = Some [Num 40, Num 45] \<and>
   length [Num 40, Num 45 :: reading] \<noteq> length [''A'', ''B'', ''C'']"
  by (simp add: snapshot_loaded_busy_noise updateChartData_def all_instances_def
      fetched_json_def no_fields_def page_chart_def series_aligned_def)

text \<open>
  C6, as amended. When \<^verbatim>\<open>renderCharts\<close> is called and one of the four canvas elements
  is absent, nothing is thrown and no chart is constructed or changed, also for the
  canvases that exist. The failure is logged when the function gets as far as the
  canvases, that is when the chart-data script element exists and its text parses: the
  console then ends with the line that the canvas elements were not found.
\<close>

theorem missing_canvas_skips_every_chart:
  "tempCtx (document (vars s)) = None \<or> humCtx (document (vars s)) = None \<or>
   noiseCtx (document (vars s)) = None \<or> lightCtx (document (vars s)) = None \<longrightarrow>
     fst (renderCharts P s) = None \<and>
     vars (snd (renderCharts P s)) = vars s \<and>
     (\<forall>content data. chartDataScript (document (vars s)) = Some content \<and>
        P (trim content) = Some data \<longrightarrow>
        console (snd (renderCharts P s)) = console s @
          [Log ''renderCharts() called'', Log ''Raw chart data:'', Log ''Parsed chart data:'',
           Log ''Canvas elements found:'', Log ''Chart canvas elements not found''])"
proof (intro impI)
  assume "tempCtx (document (vars s)) = None \<or> humCtx (document (vars s)) = None \<or>
    noiseCtx (document (vars s)) = None \<or> lightCtx (document (vars s)) = None"
  then have c: "all_canvases (document (vars s)) = None"
    by (simp add: all_canvases_None_iff)
  show "fst (renderCharts P s) = None \<and>
     vars (snd (renderCharts P s)) = vars s \<and>
     (\<forall>content data. chartDataScript (document (vars s)) = Some content \<and>
        P (trim content) = Some data \<longrightarrow>
        console (snd (renderCharts P s)) = console s @
          [Log ''renderCharts() called'', Log ''Raw chart data:'', Log ''Parsed chart data:'',
           Log ''Canvas elements found:'', Log ''Chart canvas elements not found''])"
    using renderCharts_missing_canvas(1,2) [OF c, of P]
      renderCharts_missing_canvas_console [OF c, of _ P]
    by blast
qed

theorem missing_canvas_skips_every_chart_witness:
  "fst (renderCharts sample_parse (initial_globals no_light_document)) = None \<and>
   vars (snd (renderCharts sample_parse (initial_globals no_light_document))) =
     vars (initial_globals no_light_document) \<and>
   console (snd (renderCharts sample_parse (initial_globals no_light_document))) =
     [Log ''renderCharts() called'', Log ''Raw chart data:'', Log ''Parsed chart data:'',
      Log ''Canvas elements found:'', Log ''Chart canvas elements not found'']"
proof -
  have l: "lightCtx (document (vars (initial_globals no_light_document))) = None"
    by (simp add: initial_globals_def no_light_document_def)
  have c: "chartDataScript (document (vars (initial_globals no_light_document))) =
      Some '' page ''"
    by (simp add: initial_globals_def no_light_document_def sample_document_def)
  have p: "sample_parse (trim '' page '') = Some (JsonObject page_json)"
    by (simp add: sample_parse_def trim_def is_space_def)
  have e: "console (initial_globals no_light_document) = []"
    by (simp add: initial_globals_def)
  from missing_canvas_skips_every_chart [of "initial_globals no_light_document" sample_parse] l
  have "fst (renderCharts sample_parse (initial_globals no_light_document)) = None"
    and "vars (snd (renderCharts sample_parse (initial_globals no_light_document))) =
      vars (initial_globals no_light_document)"
    and "\<forall>content data.
        chartDataScript (document (vars (initial_globals no_light_document))) = Some content \<and>
        sample_parse (trim content) = Some data \<longrightarrow>
        console (snd (renderCharts sample_parse (initial_globals no_light_document))) =
          console (initial_globals no_light_document) @
          [Log ''renderCharts() called'', Log ''Raw chart data:'', Log ''Parsed chart data:'',
           Log ''Canvas elements found:'', Log ''Chart canvas elements not found'']"
    by blast+
  with c p e show ?thesis by simp
qed

text \<open>
  C6 as it is written fails: with the light canvas absent and the three other canvases
  present, none of the three charts is constructed.
\<close>

theorem existing_canvases_not_constructed_counterexample:
  "tempCtx no_light_document = Some Usable \<and> humCtx no_light_document = Some Usable \<and>
   noiseCtx no_light_document = Some Usable \<and> lightCtx no_light_document = None \<and>
   temperatureChartInstance (vars (snapshot_loaded no_light_document)) = None \<and>
   humidityChartInstance (vars (snapshot_loaded no_light_document)) = None \<and>
   noiseChartInstance (vars (snapshot_loaded no_light_document)) = None"
  by (simp add: snapshot_loaded_def renderCharts_def initial_globals_def sample_document_def
      no_light_document_def console_log_def Let_def trim_def is_space_def sample_parse_def
      all_canvases_def)

text \<open>
  On the two template pages \<^verbatim>\<open>initializeCharts\<close> has no guard: an absent canvas makes
  \<^verbatim>\<open>getContext\<close> throw, and the listener ends there.
\<close>

lemma initializeCharts_throws:
  "\<not> heartCanvas \<or> \<not> tempCanvas \<or> \<not> oxygenCanvas \<Longrightarrow>
     patient_page_load heartCanvas tempCanvas oxygenCanvas = Inl TypeError"
  "\<not> tempCanvas \<or> \<not> humCanvas \<or> \<not> noiseCanvas \<or> \<not> lightCanvas \<Longrightarrow>
     ward_page_load tempCanvas humCanvas noiseCanvas lightCanvas = Inl TypeError"
  by (auto simp: patient_page_load_def initializeCharts_patient_def ward_page_load_def
      initializeCharts_ward_def)

text \<open>
  C7, as amended. When all four chart instances are initialized, apply replaces the labels
  of each chart by the payload's wards and its data by the payload's series of that
  chart (for noise and light intensity an empty array when the field is absent), leaves
  the rest of the chart as it was, and redraws it once. When one of the four is not
  initialized, apply changes nothing, neither for that chart nor for the initialized ones.
\<close>

theorem apply_replaces_all_or_nothing:
  "(all_instances (vars s) = Some (t, h, n, l) \<longrightarrow>
      fst (updateChartData S (JsonObject d) s) = None \<and>
      temperatureChartInstance (vars (snapshot_apply S d s)) =
        Some (replaced (wards d) (temperature d) t) \<and>
      humidityChartInstance (vars (snapshot_apply S d s)) =
        Some (replaced (wards d) (humidity d) h) \<and>
      noiseChartInstance (vars (snapshot_apply S d s)) =
        Some (replaced (wards d) (or_empty (noise d)) n) \<and>
      lightChartInstance (vars (snapshot_apply S d s)) =
        Some (replaced (wards d) (or_empty (light_intensity d)) l)) \<and>
   (all_instances (vars s) = None \<longrightarrow> updateChartData S (JsonObject d) s = (None, s))"
  using updateChartData_initialized(1-5) [of s t h n l S d]
    updateChartData_uninitialized [of s S "JsonObject d"]
  by blast

theorem apply_replaces_all_or_nothing_witness:
  "temperatureChartInstance
     (vars (snapshot_apply sample_stringify fetched_json (snapshot_loaded sample_document))) =
     Some \<lparr>chart_labels = Some [''A'', ''B'', ''C''],
       chart_data = Some [Num 21, Num 22, Num 23], y_min = None, y_max = None, updates = 1\<rparr> \<and>
   snapshot_apply sample_stringify fetched_json (snapshot_loaded busy_noise_document) =
     snapshot_loaded busy_noise_document"
proof -
  have a: "all_instances (vars (snapshot_loaded sample_document)) =
      Some ((page_chart [Num 21, Num 22] None),
       (page_chart [Num 40, Num 45] (Some 100)),
       (page_chart [Num 30, Num 35] None),
       (page_chart [Num 300, Num 310] None))"
    by (simp add: snapshot_loaded_sample all_instances_def)
  have b: "all_instances (vars (snapshot_loaded busy_noise_document)) = None"
    by (simp add: snapshot_loaded_busy_noise all_instances_def)
  from apply_replaces_all_or_nothing [of "snapshot_loaded sample_document" "page_chart [Num 21, Num 22] None" "page_chart [Num 40, Num 45] (Some 100)"
      "page_chart [Num 30, Num 35] None" "page_chart [Num 300, Num 310] None"
      sample_stringify fetched_json] a
  have "temperatureChartInstance
     (vars (snapshot_apply sample_stringify fetched_json (snapshot_loaded sample_document))) =
     Some (replaced (wards fetched_json) (temperature fetched_json)
       (page_chart [Num 21, Num 22] None))"
    by blast
  moreover from apply_replaces_all_or_nothing [of "snapshot_loaded busy_noise_document" _ _ _ _
      sample_stringify fetched_json] b
  have "updateChartData sample_stringify (JsonObject fetched_json)
      (snapshot_loaded busy_noise_document) = (None, snapshot_loaded busy_noise_document)"
    by blast
  ultimately show ?thesis
    by (simp add: replaced_def fetched_json_def no_fields_def page_chart_def)
qed

text \<open>
  C7 as it is written fails: after a page load on which the noise chart could not be
  constructed, the temperature chart is initialized, and apply leaves its labels and
  data as they were.
\<close>

theorem initialized_chart_not_replaced_counterexample:
  "temperatureChartInstance (vars (snapshot_loaded busy_noise_document)) =
     Some (page_chart [Num 21, Num 22] None) \<and>
   noiseChartInstance (vars (snapshot_loaded busy_noise_document)) = None \<and>
   wards fetched_json = Some [''A'', ''B'', ''C''] \<and>
   temperature fetched_json = Some [Num 21, Num 22, Num 23] \<and>
   temperatureChartInstance
     (vars (snapshot_apply sample_stringify fetched_json (snapshot_loaded busy_noise_document))) =
     Some (page_chart [Num 21, Num 22] None)"
  by (simp add: snapshot_loaded_busy_noise updateChartData_def all_instances_def
      fetched_json_def no_fields_def page_chart_def)

lemma absent_series_initialized:
  "all_instances (vars s) = Some (t, h, n, l) \<longrightarrow>
     fst (updateChartData S (JsonObject d) s) = None \<and>
     (noise d = None \<longrightarrow>
        noiseChartInstance (vars (snapshot_apply S d s)) =
          Some (n\<lparr>chart_labels := wards d, chart_data := Some [],
            updates := Suc (updates n)\<rparr>) \<and>
        (\<forall>ws. wards d = Some ws \<and> ws \<noteq> [] \<longrightarrow>
           \<not> instance_aligned (noiseChartInstance (vars (snapshot_apply S d s))))) \<and>
     (light_intensity d = None \<longrightarrow>
        lightChartInstance (vars (snapshot_apply S d s)) =
          Some (l\<lparr>chart_labels := wards d, chart_data := Some [],
            updates := Suc (updates l)\<rparr>) \<and>
        (\<forall>ws. wards d = Some ws \<and> ws \<noteq> [] \<longrightarrow>
           \<not> instance_aligned (lightChartInstance (vars (snapshot_apply S d s)))))"
proof (intro impI)
  assume i: "all_instances (vars s) = Some (t, h, n, l)"
  note u = updateChartData_initialized [OF i, of S d]
  show "fst (updateChartData S (JsonObject d) s) = None \<and>
     (noise d = None \<longrightarrow>
        noiseChartInstance (vars (snapshot_apply S d s)) =
          Some (n\<lparr>chart_labels := wards d, chart_data := Some [],
            updates := Suc (updates n)\<rparr>) \<and>
        (\<forall>ws. wards d = Some ws \<and> ws \<noteq> [] \<longrightarrow>
           \<not> instance_aligned (noiseChartInstance (vars (snapshot_apply S d s))))) \<and>
     (light_intensity d = None \<longrightarrow>
        lightChartInstance (vars (snapshot_apply S d s)) =
          Some (l\<lparr>chart_labels := wards d, chart_data := Some [],
            updates := Suc (updates l)\<rparr>) \<and>
        (\<forall>ws. wards d = Some ws \<and> ws \<noteq> [] \<longrightarrow>
           \<not> instance_aligned (lightChartInstance (vars (snapshot_apply S d s)))))"
    by (simp add: u(1,4,5) replaced_def instance_aligned_def aligned_def series_aligned_def)
qed

text \<open>
  C9, as amended. On the cross-ward snapshot, when the four chart instances are
  initialized, a payload without the noise field gives the noise chart the payload's
  wards as labels and an empty array as data, with no error; when the payload has at
  least one ward the chart is then not aligned. The same holds for light intensity. When
  one of the four chart instances is not initialized, apply changes nothing and the
  chart keeps the data it had.
\<close>

theorem absent_noise_or_light_empties_data:
  "(all_instances (vars s) = Some (t, h, n, l) \<longrightarrow>
     fst (updateChartData S (JsonObject d) s) = None \<and>
     (noise d = None \<longrightarrow>
        noiseChartInstance (vars (snapshot_apply S d s)) =
          Some (n\<lparr>chart_labels := wards d, chart_data := Some [],
            updates := Suc (updates n)\<rparr>) \<and>
        (\<forall>ws. wards d = Some ws \<and> ws \<noteq> [] \<longrightarrow>
           \<not> instance_aligned (noiseChartInstance (vars (snapshot_apply S d s))))) \<and>
     (light_intensity d = None \<longrightarrow>
        lightChartInstance (vars (snapshot_apply S d s)) =
          Some (l\<lparr>chart_labels := wards d, chart_data := Some [],
            updates := Suc (updates l)\<rparr>) \<and>
        (\<forall>ws. wards d = Some ws \<and> ws \<noteq> [] \<longrightarrow>
           \<not> instance_aligned (lightChartInstance (vars (snapshot_apply S d s)))))) \<and>
   (all_instances (vars s) = None \<longrightarrow> snapshot_apply S d s = s)"
proof (rule conjI)
  show "all_instances (vars s) = Some (t, h, n, l) \<longrightarrow>
     fst (updateChartData S (JsonObject d) s) = None \<and>
     (noise d = None \<longrightarrow>
        noiseChartInstance (vars (snapshot_apply S d s)) =
          Some (n\<lparr>chart_labels := wards d, chart_data := Some [],
            updates := Suc (updates n)\<rparr>) \<and>
        (\<forall>ws. wards d = Some ws \<and> ws \<noteq> [] \<longrightarrow>
           \<not> instance_aligned (noiseChartInstance (vars (snapshot_apply S d s))))) \<and>
     (light_intensity d = None \<longrightarrow>
        lightChartInstance (vars (snapshot_apply S d s)) =
          Some (l\<lparr>chart_labels := wards d, chart_data := Some [],
            updates := Suc (updates l)\<rparr>) \<and>
        (\<forall>ws. wards d = Some ws \<and> ws \<noteq> [] \<longrightarrow>
           \<not> instance_aligned (lightChartInstance (vars (snapshot_apply S d s)))))"
    by (rule absent_series_initialized)
  show "all_instances (vars s) = None \<longrightarrow> snapshot_apply S d s = s"
    by (simp add: updateChartData_uninitialized)
qed

theorem absent_noise_or_light_empties_data_witness:
  "noiseChartInstance (vars (snapshot_apply sample_stringify wards_only_json
      (snapshot_loaded sample_document))) =
     Some \<lparr>chart_labels = Some [''A'', ''B'', ''C''], chart_data = Some [], y_min = None,
       y_max = None, updates = 1\<rparr> \<and>
   lightChartInstance (vars (snapshot_apply sample_stringify wards_only_json
      (snapshot_loaded sample_document))) =
     Some \<lparr>chart_labels = Some [''A'', ''B'', ''C''], chart_data = Some [], y_min = None,
       y_max = None, updates = 1\<rparr> \<and>
   \<not> instance_aligned (noiseChartInstance (vars (snapshot_apply sample_stringify
      wards_only_json (snapshot_loaded sample_document)))) \<and>
   \<not> instance_aligned (lightChartInstance (vars (snapshot_apply sample_stringify
      wards_only_json (snapshot_loaded sample_document))))"
proof -
  have w: "wards wards_only_json = Some [''A'', ''B'', ''C'']"
    by (simp add: wards_only_json_def fetched_json_def no_fields_def)
  have n: "noise wards_only_json = None" "light_intensity wards_only_json = None"
    by (simp_all add: wards_only_json_def)
  from absent_noise_or_light_empties_data [of "snapshot_loaded sample_document"
      "page_chart [Num 21, Num 22] None" "page_chart [Num 40, Num 45] (Some 100)"
      "page_chart [Num 30, Num 35] None" "page_chart [Num 300, Num 310] None"
      sample_stringify wards_only_json] all_instances_loaded_sample n
  have k: "noiseChartInstance (vars (snapshot_apply sample_stringify
      wards_only_json (snapshot_loaded sample_document))) =
     Some ((page_chart [Num 30, Num 35] None)
       \<lparr>chart_labels := wards wards_only_json, chart_data := Some [],
        updates := Suc (updates (page_chart [Num 30, Num 35] None))\<rparr>)"
    "lightChartInstance (vars (snapshot_apply sample_stringify
      wards_only_json (snapshot_loaded sample_document))) =
     Some ((page_chart [Num 300, Num 310] None)
       \<lparr>chart_labels := wards wards_only_json, chart_data := Some [],
        updates := Suc (updates (page_chart [Num 300, Num 310] None))\<rparr>)"
    and a: "\<forall>ws. wards wards_only_json = Some ws \<and> ws \<noteq> [] \<longrightarrow>
      \<not> instance_aligned (noiseChartInstance (vars (snapshot_apply sample_stringify
      wards_only_json (snapshot_loaded sample_document))))"
     "\<forall>ws. wards wards_only_json = Some ws \<and> ws \<noteq> [] \<longrightarrow>
      \<not> instance_aligned (lightChartInstance (vars (snapshot_apply sample_stringify
      wards_only_json (snapshot_loaded sample_document))))"
    by blast+
  from a w have "\<not> instance_aligned (noiseChartInstance (vars (snapshot_apply sample_stringify
      wards_only_json (snapshot_loaded sample_document))))"
    "\<not> instance_aligned (lightChartInstance (vars (snapshot_apply sample_stringify
      wards_only_json (snapshot_loaded sample_document))))"
    by simp_all
  with k w show ?thesis
    by (simp add: page_chart_def)
qed

text \<open>
  C9 as it is written fails: after a page load on which the light chart could not be
  constructed, apply of a payload without the noise field leaves the noise chart with
  the data it had.
\<close>

theorem absent_noise_keeps_prior_data_counterexample:
  "noise wards_only_json = None \<and>
   noiseChartInstance (vars (snapshot_loaded busy_light_document)) =
     Some (page_chart [Num 30, Num 35] None) \<and>
   lightChartInstance (vars (snapshot_loaded busy_light_document)) = None \<and>
   fst (updateChartData sample_stringify (JsonObject wards_only_json)
     (snapshot_loaded busy_light_document)) = None \<and>
   noiseChartInstance
     (vars (snapshot_apply sample_stringify wards_only_json
        (snapshot_loaded busy_light_document))) = Some (page_chart [Num 30, Num 35] None) \<and>
   chart_data (page_chart [Num 30, Num 35] None) = Some [Num 30, Num 35] \<and>
   chart_data (page_chart [Num 30, Num 35] None) \<noteq> Some []"
  by (simp add: snapshot_loaded_busy_light updateChartData_def all_instances_def
      wards_only_json_def page_chart_def)

text \<open>
  C10. On the cross-ward snapshot, when \<^verbatim>\<open>updateChartData\<close> applies a payload (the four
  chart instances initialized) and the chart-data script element exists, the element's
  text content becomes the serialization of the payload. A later \<^verbatim>\<open>renderCharts\<close>,
  with the four canvases present and \<^verbatim>\<open>JSON.parse\<close> inverting \<^verbatim>\<open>JSON.stringify\<close> on
  that payload, applies the same payload once more, whatever the element held before.
\<close>

theorem script_element_follows_payload:
  "all_instances (vars s) = Some (t, h, n, l) \<and>
   chartDataScript (document (vars s)) = Some old \<longrightarrow>
     chartDataScript (document (vars (snapshot_apply S d s))) = Some (S (JsonObject d)) \<and>
     (all_canvases (document (vars s)) = Some cs \<and>
      P (trim (S (JsonObject d))) = Some (JsonObject d) \<longrightarrow>
        fst (renderCharts P (snapshot_apply S d s)) = None \<and>
        temperatureChartInstance (vars (snd (renderCharts P (snapshot_apply S d s)))) =
          Some (replaced (wards d) (temperature d) (replaced (wards d) (temperature d) t)) \<and>
        humidityChartInstance (vars (snd (renderCharts P (snapshot_apply S d s)))) =
          Some (replaced (wards d) (humidity d) (replaced (wards d) (humidity d) h)) \<and>
        noiseChartInstance (vars (snd (renderCharts P (snapshot_apply S d s)))) =
          Some (replaced (wards d) (or_empty (noise d))
            (replaced (wards d) (or_empty (noise d)) n)) \<and>
        lightChartInstance (vars (snd (renderCharts P (snapshot_apply S d s)))) =
          Some (replaced (wards d) (or_empty (light_intensity d))
            (replaced (wards d) (or_empty (light_intensity d)) l)))"
proof (intro impI, elim conjE)
  assume i: "all_instances (vars s) = Some (t, h, n, l)"
    and o: "chartDataScript (document (vars s)) = Some old"
  note u = updateChartData_initialized [OF i, of S d]
  have script: "chartDataScript (document (vars (snapshot_apply S d s))) = Some (S (JsonObject d))"
    using u(6) o by simp
  have inst: "all_instances (vars (snapshot_apply S d s)) =
      Some (replaced (wards d) (temperature d) t, replaced (wards d) (humidity d) h,
        replaced (wards d) (or_empty (noise d)) n,
        replaced (wards d) (or_empty (light_intensity d)) l)"
    using u(2-5) by (simp add: all_instances_Some_iff)
  have "fst (renderCharts P (snapshot_apply S d s)) = None \<and>
        temperatureChartInstance (vars (snd (renderCharts P (snapshot_apply S d s)))) =
          Some (replaced (wards d) (temperature d) (replaced (wards d) (temperature d) t)) \<and>
        humidityChartInstance (vars (snd (renderCharts P (snapshot_apply S d s)))) =
          Some (replaced (wards d) (humidity d) (replaced (wards d) (humidity d) h)) \<and>
        noiseChartInstance (vars (snd (renderCharts P (snapshot_apply S d s)))) =
          Some (replaced (wards d) (or_empty (noise d))
            (replaced (wards d) (or_empty (noise d)) n)) \<and>
        lightChartInstance (vars (snd (renderCharts P (snapshot_apply S d s)))) =
          Some (replaced (wards d) (or_empty (light_intensity d))
            (replaced (wards d) (or_empty (light_intensity d)) l))"
    if c: "all_canvases (document (vars s)) = Some cs"
      and p: "P (trim (S (JsonObject d))) = Some (JsonObject d)"
  proof -
    have c': "all_canvases (document (vars (snapshot_apply S d s))) = Some cs"
      using u(7) c by simp
    from renderCharts_update_branch [where P = P and content = "S (JsonObject d)", OF script p c' inst]
    show ?thesis
      by (simp add: update_instances_def chart_update_set_series)
  qed
  with script show "chartDataScript (document (vars (snapshot_apply S d s))) =
      Some (S (JsonObject d)) \<and>
     (all_canvases (document (vars s)) = Some cs \<and>
      P (trim (S (JsonObject d))) = Some (JsonObject d) \<longrightarrow>
        fst (renderCharts P (snapshot_apply S d s)) = None \<and>
        temperatureChartInstance (vars (snd (renderCharts P (snapshot_apply S d s)))) =
          Some (replaced (wards d) (temperature d) (replaced (wards d) (temperature d) t)) \<and>
        humidityChartInstance (vars (snd (renderCharts P (snapshot_apply S d s)))) =
          Some (replaced (wards d) (humidity d) (replaced (wards d) (humidity d) h)) \<and>
        noiseChartInstance (vars (snd (renderCharts P (snapshot_apply S d s)))) =
          Some (replaced (wards d) (or_empty (noise d))
            (replaced (wards d) (or_empty (noise d)) n)) \<and>
        lightChartInstance (vars (snd (renderCharts P (snapshot_apply S d s)))) =
          Some (replaced (wards d) (or_empty (light_intensity d))
            (replaced (wards d) (or_empty (light_intensity d)) l)))"
    by blast
qed

theorem script_element_follows_payload_witness:
  "chartDataScript (document (vars (snapshot_loaded sample_document))) = Some '' page '' \<and>
   chartDataScript (document (vars
     (snapshot_apply sample_stringify fetched_json (snapshot_loaded sample_document)))) =
     Some ''fetched'' \<and>
   temperatureChartInstance (vars (snd (renderCharts sample_parse
     (snapshot_apply sample_stringify fetched_json (snapshot_loaded sample_document))))) =
     Some \<lparr>chart_labels = Some [''A'', ''B'', ''C''],
       chart_data = Some [Num 21, Num 22, Num 23], y_min = None, y_max = None, updates = 2\<rparr>"
proof -
  have o: "chartDataScript (document (vars (snapshot_loaded sample_document))) = Some '' page ''"
    unfolding snapshot_loaded_sample by (simp add: sample_document_def)
  have c: "all_canvases (document (vars (snapshot_loaded sample_document))) =
      Some (Usable, Usable, Usable, Usable)"
    unfolding snapshot_loaded_sample by (simp add: sample_document_def all_canvases_def)
  have p: "sample_parse (trim (sample_stringify (JsonObject fetched_json))) =
      Some (JsonObject fetched_json)"
    by (simp add: sample_parse_def sample_stringify_def trim_def is_space_def)
  have s: "sample_stringify (JsonObject fetched_json) = ''fetched''"
    by (simp add: sample_stringify_def)
  from script_element_follows_payload [of "snapshot_loaded sample_document" "page_chart [Num 21, Num 22] None" "page_chart [Num 40, Num 45] (Some 100)"
      "page_chart [Num 30, Num 35] None" "page_chart [Num 300, Num 310] None"
      "'' page ''" sample_stringify fetched_json "(Usable, Usable, Usable, Usable)" sample_parse]
    all_instances_loaded_sample o c p
  have "chartDataScript (document (vars
     (snapshot_apply sample_stringify fetched_json (snapshot_loaded sample_document)))) =
     Some (sample_stringify (JsonObject fetched_json))"
    and "temperatureChartInstance (vars (snd (renderCharts sample_parse
     (snapshot_apply sample_stringify fetched_json (snapshot_loaded sample_document))))) =
     Some (replaced (wards fetched_json) (temperature fetched_json)
       (replaced (wards fetched_json) (temperature fetched_json)
         (page_chart [Num 21, Num 22] None)))"
    by blast+
  with o s show ?thesis
    by (simp add: replaced_def fetched_json_def no_fields_def page_chart_def)
qed

section \<open>Claims on the refresh timer\<close>

lemma tick_starts_fetch:
  "in_flight (step_patient Tick p) = Suc (in_flight p)"
  "in_flight (step_ward Tick w) = Suc (in_flight w)"
  "in_flight (step_snapshot S Tick g) = Suc (in_flight g)"
  by (simp_all add: step_patient_def step_ward_def step_snapshot_def
      updateCharts_patient_start_def updateCharts_ward_start_def
      fetchAndUpdateCharts_start_def Let_def)

lemma ticks_start_fetches:
  "in_flight ((step_patient Tick ^^ k) p) = in_flight p + k"
  "in_flight ((step_ward Tick ^^ k) w) = in_flight w + k"
  "in_flight ((step_snapshot S Tick ^^ k) g) = in_flight g + k"
  by (induction k) (simp_all add: tick_starts_fetch)

text \<open>
  C8, as amended. Every tick starts a fetch, whether or not an earlier fetch is still in
  flight: a tick raises the number of fetches in flight by one, and \<open>k\<close> ticks with no
  settlement in between raise it by \<open>k\<close>. No tick is skipped.
\<close>

theorem every_tick_starts_a_fetch:
  "in_flight (step_patient Tick p) = Suc (in_flight p) \<and>
   in_flight (step_ward Tick w) = Suc (in_flight w) \<and>
   in_flight (step_snapshot S Tick g) = Suc (in_flight g) \<and>
   in_flight ((step_patient Tick ^^ k) p) = in_flight p + k \<and>
   in_flight ((step_ward Tick ^^ k) w) = in_flight w + k \<and>
   in_flight ((step_snapshot S Tick ^^ k) g) = in_flight g + k"
  by (simp add: tick_starts_fetch ticks_start_fetches)

text \<open>
  C8 as it is written fails: two ticks of the cross-ward timer with no settlement in
  between leave two fetches in flight, and a tick on the patient page while the initial
  fetch is in flight does too.
\<close>

theorem overlapping_fetches_counterexample:
  "in_flight (snapshot_loaded sample_document) = 0 \<and>
   in_flight (step_snapshot sample_stringify Tick (snapshot_loaded sample_document)) = 1 \<and>
   in_flight (step_snapshot sample_stringify Tick
     (step_snapshot sample_stringify Tick (snapshot_loaded sample_document))) = 2 \<and>
   in_flight showing_patient = 1 \<and>
   in_flight (step_patient Tick showing_patient) = 2"
proof -
  have "in_flight (snapshot_loaded sample_document) = 0"
    by (simp add: snapshot_loaded_def
        renderCharts_missing_canvas(3) renderCharts_def initial_globals_def sample_document_def
      console_log_def console_error_def Let_def trim_def is_space_def sample_parse_def
      all_canvases_def all_instances_def create_charts_def page_json_def no_fields_def
      new_Chart_def or_empty_def)
  then show ?thesis
    by (simp add: tick_starts_fetch showing_patient_def)
qed

end
